theory Spec2Isabelle
  imports Main "HOL-Library.AList" "HOL-Library.Multiset"
begin

section \<open>Errors and dynamic values\<close>

text \<open>
  Every exception the compiler can raise is a value.  \<open>NotYetImplemented k\<close> is
  \<^verbatim>\<open>Exception("Not yet implemented: k")\<close>, \<open>MissingName p\<close> is
  \<^verbatim>\<open>Exception("Missing name in package 'p'")\<close> and \<open>NoPackageFound r\<close> is
  \<^verbatim>\<open>Exception("No package found at root path 'r'")\<close>.  \<open>CodecError\<close> stands for any
  exception other than an IOError that a descriptor codec raises.
\<close>

datatype error =
    NotYetImplemented string
  | AssertionError string
  | AttributeError string
  | NameError string
  | UnboundLocalError string
  | TypeError string
  | IOError
  | CodecError string
  | MissingName string
  | NoPackageFound string

text \<open>Python values as they occur in name constants and in unmarshaled descriptors.\<close>

datatype pyval = PNone | PBool bool | PInt int | PStr string | PList "pyval list"

fun truthy :: "pyval \<Rightarrow> bool" where
  "truthy PNone = False"
| "truthy (PBool b) = b"
| "truthy (PInt i) = (i \<noteq> 0)"
| "truthy (PStr s) = (s \<noteq> [])"
| "truthy (PList xs) = (xs \<noteq> [])"

section \<open>The Python syntax tree (pythonparser.ast)\<close>

text \<open>
  A node's \<open>loc\<close> is a source range: \<open>loc.line()\<close>, \<open>loc.column()\<close> and the same two
  coordinates of \<open>loc.end()\<close>.
\<close>

record py_range =
  line :: nat
  column :: nat
  end_line :: nat
  end_column :: nat

datatype expr_context = Py_Load | Py_Store | Py_Del

datatype cmpop =
  Py_Eq | Py_NotEq | Py_Lt | Py_LtE | Py_Gt | Py_GtE | Py_Is | Py_IsNot | Py_In | Py_NotIn

text \<open>
  Expression nodes.  The kinds the transformer does not implement carry no fields: it
  reads none of them.  \<open>Py_OtherExpr k\<close> is a node of a class \<open>k\<close> that the dispatch of
  \<open>transform_expr\<close> does not list.
\<close>

datatype py_expr =
    Py_Attribute py_expr string "expr_context option" py_range
  | Py_BinOp
  | Py_BoolOp
  | Py_Call py_expr "py_expr list" py_range
  | Py_Compare py_expr "cmpop list" "py_expr list" py_range
  | Py_Dict
  | Py_DictComp
  | Py_Ellipsis
  | Py_GeneratorExp
  | Py_IfExp py_expr py_expr py_expr py_range
  | Py_Lambda
  | Py_List
  | Py_ListComp
  | Py_Name string "expr_context option" py_range
  | Py_NameConstant pyval py_range
  | Py_Num int py_range
  | Py_Repr
  | Py_Set
  | Py_SetComp
  | Py_Str string py_range
  | Py_Starred
  | Py_Subscript
  | Py_Tuple
  | Py_UnaryOp
  | Py_Yield
  | Py_YieldFrom
  | Py_OtherExpr string

datatype py_alias = Py_alias string py_range

datatype py_arg = Py_arg string py_range

text \<open>
  Statement nodes.  \<open>Py_FunctionDef name args args_loc body loc\<close> holds the list
  \<open>node.args.args\<close> and the range of \<open>node.args\<close>; \<open>Py_If test body orelse loc\<close> holds
  \<open>orelse\<close> as the list of statements it is.
\<close>

datatype py_stmt =
    Py_Assert
  | Py_Assign "py_expr list" py_expr py_range
  | Py_AugAssign
  | Py_Break py_range
  | Py_ClassDef
  | Py_Continue py_range
  | Py_Delete
  | Py_Exec
  | Py_Expr py_expr py_range
  | Py_For
  | Py_FunctionDef string "py_arg list" py_range "py_stmt list" py_range
  | Py_Global
  | Py_If py_expr "py_stmt list" "py_stmt list" py_range
  | Py_Import "py_alias list" py_range
  | Py_ImportFrom
  | Py_Nonlocal
  | Py_Pass py_range
  | Py_Print
  | Py_Raise
  | Py_Return "py_expr option" py_range
  | Py_Try
  | Py_While
  | Py_With
  | Py_OtherStmt string

section \<open>The intermediate representation (cocopy.lib.ast)\<close>

text \<open>
  Modelled from the spec: the node classes of \<^verbatim>\<open>cocopy/lib/ast.py\<close>, which is not among
  the sources.  Each constructor has the fields that the constructor calls of
  \<^verbatim>\<open>compiler.py\<close> pass, in the order the data model of the spec gives them; a keyword
  argument that a call leaves out is \<open>None\<close>.  An identifier is polymorphic in what it
  wraps, since the compiler wraps strings and, for parameters, argument nodes.
\<close>

datatype position = Position nat nat

datatype location = Location (loc_file: string) (loc_start: position) (loc_end: "position option")

datatype token = Token string

datatype 'a ir_identifier = Identifier (ident: 'a) "location option"

datatype type_token = TypeToken string "location option"

datatype module_token = ModuleToken string "location option"

datatype binop =
  binop_assign | binop_eqeq | binop_noteq | binop_gt | binop_gteq | binop_lt | binop_lteq

datatype expr =
    LoadLocationExpression token "location option"
  | LoadDynamicExpression expr expr "location option"
  | BinaryOperatorExpression expr binop expr "location option"
  | InvokeFunctionExpression expr "expr list" "location option"
  | ConditionalExpression expr expr expr "location option"
  | NullLiteral "location option"
  | BoolLiteral bool "location option"
  | StringLiteral string "location option"
  | NumberLiteral int "location option"

datatype stmt =
    ExpressionStatement expr "location option"
  | Break "location option"
  | Continue "location option"
  | EmptyStatement "location option"
  | IfStatement expr stmt "stmt option" "location option"
  | ReturnStatement expr "location option"
  | Block "stmt list" "location option"

fun stmt_loc :: "stmt \<Rightarrow> location option" where
  "stmt_loc (ExpressionStatement e l) = l"
| "stmt_loc (Break l) = l"
| "stmt_loc (Continue l) = l"
| "stmt_loc (EmptyStatement l) = l"
| "stmt_loc (IfStatement c t a l) = l"
| "stmt_loc (ReturnStatement e l) = l"
| "stmt_loc (Block ss l) = l"

datatype local_variable = LocalVariable "py_arg ir_identifier" type_token "location option"

datatype module_member =
    ModuleProperty "string ir_identifier" type_token
  | ModuleMethod "string ir_identifier" "local_variable list option" "type_token option"
      "stmt option" "location option"

datatype ir_export = Export "string ir_identifier" token

text \<open>A Python dict with string keys: an association list with distinct keys.\<close>

type_synonym 'v dict = "(string \<times> 'v) list"

text \<open>
  The imports of a module are the list that the source makes of a set of token objects.
  Objects are compared by identity, so the set keeps every token it was given, and the
  order of the list is not determined: the model keeps the tokens as a multiset.
\<close>

datatype ir_module =
  Module "string ir_identifier" "module_token multiset" "ir_export dict" "module_member dict"

fun members :: "ir_module \<Rightarrow> module_member dict" where
  "members (Module n imps exps mems) = mems"

section \<open>Tokens and packages (cocopy.lib.tokens, cocopy.lib.pack)\<close>

text \<open>
  The constants of \<^verbatim>\<open>cocopy/lib/tokens.py\<close> are not among the sources; they are a
  parameter of the transformer.
\<close>

record tokens =
  delim :: string
  name_delim :: string
  type_dynamic :: string
  func_init :: string
  func_entrypoint :: string

text \<open>
  Modelled from the spec: \<^verbatim>\<open>pack.Package\<close>, which is not among the sources: the name, the
  descriptive metadata, the dependency list and the module table.
\<close>

record package =
  pkg_name :: pyval
  description :: pyval
  author :: pyval
  website :: pyval
  license :: pyval
  dependencies :: pyval
  modules :: "ir_module dict"

section \<open>The transformer\<close>

record module_spec =
  ms_name :: string
  ms_file :: string
  py_module :: "py_stmt list"

record transform_context =
  ctx_mod :: module_spec
  globals :: "string list"
  func :: "py_stmt option"

definition Context :: "module_spec \<Rightarrow> transform_context" where
  "Context m = \<lparr>ctx_mod = m, globals = [], func = None\<rparr>"

text \<open>
  \<open>loc_from\<close> takes the range of the node, or \<open>None\<close> when it is called without a node.
  Columns become 1-based.
\<close>

definition loc_from :: "transform_context \<Rightarrow> py_range option \<Rightarrow> location option" where
  "loc_from ctx node =
     (case node of
        Some r \<Rightarrow>
          Some (Location (ms_file (ctx_mod ctx))
                  (Position (line r) (column r + 1))
                  (Some (Position (end_line r) (end_column r + 1))))
      | None \<Rightarrow> None)"

definition ident_from :: "transform_context \<Rightarrow> 'a \<Rightarrow> py_range option \<Rightarrow> 'a ir_identifier" where
  "ident_from ctx nm node = Identifier nm (loc_from ctx node)"

definition type_token :: "transform_context \<Rightarrow> string \<Rightarrow> py_range option \<Rightarrow> type_token" where
  "type_token ctx tok node = TypeToken tok (loc_from ctx node)"

definition current_module_token :: "tokens \<Rightarrow> package \<Rightarrow> transform_context \<Rightarrow> error + string" where
  "current_module_token tk pkg ctx =
     (case pkg_name pkg of
        PStr s \<Rightarrow> Inr (s @ delim tk @ ms_name (ctx_mod ctx))
      | _ \<Rightarrow> Inl (TypeError ''unsupported operand type(s) for +''))"

definition not_yet_implemented :: "string \<Rightarrow> error + 'a" where
  "not_yet_implemented kind = Inl (NotYetImplemented kind)"

subsection \<open>Expressions\<close>

definition compare_op :: "cmpop \<Rightarrow> error + binop" where
  "compare_op pyop =
     (if pyop = Py_Eq \<or> pyop = Py_Is then Inr binop_eqeq
      else if pyop = Py_NotEq \<or> pyop = Py_IsNot then Inr binop_noteq
      else if pyop = Py_Gt then Inr binop_gt
      else if pyop = Py_GtE then Inr binop_gteq
      else if pyop = Py_Lt then Inr binop_lt
      else if pyop = Py_LtE then Inr binop_lteq
      else Inl (AssertionError ''Compare operator is not supported''))"

definition transform_NameConstant :: "transform_context \<Rightarrow> pyval \<Rightarrow> py_range \<Rightarrow> error + expr" where
  "transform_NameConstant ctx v r =
     (let loc = loc_from ctx (Some r) in
      if v = PStr ''None'' then Inr (NullLiteral loc)
      else if v = PStr ''True'' then Inr (BoolLiteral True loc)
      else if v = PStr ''False'' then Inr (BoolLiteral False loc)
      else Inl (AssertionError ''Unexpected name constant value''))"

text \<open>
  \<open>transform_Num\<close> reads \<open>self.value\<close>, an attribute the transformer object does not
  have, before it builds anything.
\<close>

definition transform_Num :: "transform_context \<Rightarrow> int \<Rightarrow> py_range \<Rightarrow> error + expr" where
  "transform_Num ctx n r = Inl (AttributeError ''Transformer instance has no attribute value'')"

text \<open>
  The dispatch of \<open>transform_expr\<close> with the handlers it calls.  In \<open>transform_Call\<close> the
  loop runs over the list \<open>args\<close> that was created empty on the line before it, so its
  body never runs and the node's own arguments are not read.
\<close>

fun transform_expr :: "transform_context \<Rightarrow> py_expr \<Rightarrow> error + expr" where
  "transform_expr ctx (Py_Attribute v attr c r) =
     (if c \<noteq> None then Inl (AssertionError [])
      else case transform_expr ctx v of
             Inl e \<Rightarrow> Inl e
           | Inr obj \<Rightarrow>
               Inr (LoadDynamicExpression (StringLiteral attr None) obj (loc_from ctx (Some r))))"
| "transform_expr ctx Py_BinOp = not_yet_implemented ''BinOp''"
| "transform_expr ctx Py_BoolOp = not_yet_implemented ''BoolOp''"
| "transform_expr ctx (Py_Call f as r) =
     (case transform_expr ctx f of
        Inl e \<Rightarrow> Inl e
      | Inr fn \<Rightarrow> Inr (InvokeFunctionExpression fn [] (loc_from ctx (Some r))))"
| "transform_expr ctx (Py_Compare l ops comparators r) =
     (case (ops, comparators) of
        ([pyop], [c]) \<Rightarrow>
          (case transform_expr ctx l of
             Inl e \<Rightarrow> Inl e
           | Inr lhs \<Rightarrow>
               (case compare_op pyop of
                  Inl e \<Rightarrow> Inl e
                | Inr op \<Rightarrow>
                    (case transform_expr ctx c of
                       Inl e \<Rightarrow> Inl e
                     | Inr rhs \<Rightarrow>
                         Inr (BinaryOperatorExpression lhs op rhs (loc_from ctx (Some r))))))
      | _ \<Rightarrow> Inl (AssertionError ''Multi-comparison operators not yet supported''))"
| "transform_expr ctx Py_Dict = not_yet_implemented ''Dict''"
| "transform_expr ctx Py_DictComp = not_yet_implemented ''DictComp''"
| "transform_expr ctx Py_Ellipsis = not_yet_implemented ''Ellipsis''"
| "transform_expr ctx Py_GeneratorExp = not_yet_implemented ''GeneratorExp''"
| "transform_expr ctx (Py_IfExp t b orelse r) =
     (case transform_expr ctx t of
        Inl e \<Rightarrow> Inl e
      | Inr cond \<Rightarrow>
          (case transform_expr ctx b of
             Inl e \<Rightarrow> Inl e
           | Inr cons \<Rightarrow>
               (case transform_expr ctx orelse of
                  Inl e \<Rightarrow> Inl e
                | Inr altr \<Rightarrow>
                    Inr (ConditionalExpression cond cons altr (loc_from ctx (Some r))))))"
| "transform_expr ctx Py_Lambda = not_yet_implemented ''Lambda''"
| "transform_expr ctx Py_List = not_yet_implemented ''List''"
| "transform_expr ctx Py_ListComp = not_yet_implemented ''ListComp''"
| "transform_expr ctx (Py_Name nm c r) =
     (if c \<noteq> None then Inl (AssertionError [])
      else Inr (LoadLocationExpression (Token nm) (loc_from ctx (Some r))))"
| "transform_expr ctx (Py_NameConstant v r) = transform_NameConstant ctx v r"
| "transform_expr ctx (Py_Num n r) = transform_Num ctx n r"
| "transform_expr ctx Py_Repr = not_yet_implemented ''Repr''"
| "transform_expr ctx Py_Set = not_yet_implemented ''Set''"
| "transform_expr ctx Py_SetComp = not_yet_implemented ''SetComp''"
| "transform_expr ctx (Py_Str s r) = Inr (StringLiteral s (loc_from ctx (Some r)))"
| "transform_expr ctx Py_Starred = not_yet_implemented ''Starred''"
| "transform_expr ctx Py_Subscript = not_yet_implemented ''Subscript''"
| "transform_expr ctx Py_Tuple = not_yet_implemented ''Tuple''"
| "transform_expr ctx Py_UnaryOp = not_yet_implemented ''UnaryOp''"
| "transform_expr ctx Py_Yield = not_yet_implemented ''Yield''"
| "transform_expr ctx Py_YieldFrom = not_yet_implemented ''YieldFrom''"
| "transform_expr ctx (Py_OtherExpr k) = Inl (AssertionError ''Unrecognized statement node'')"

subsection \<open>Statements\<close>

text \<open>
  A value that is either a node of the Python tree or a node of the intermediate
  representation: \<open>track_assign\<close> tests the class of its argument at run time.
\<close>

datatype node = PyNode py_expr | IrNode expr

definition track_assign :: "transform_context \<Rightarrow> node \<Rightarrow> transform_context" where
  "track_assign ctx lhs =
     (case lhs of
        PyNode (Py_Name nm c r) \<Rightarrow>
          (if func ctx = None then ctx\<lparr>globals := List.insert nm (globals ctx)\<rparr> else ctx)
      | _ \<Rightarrow> ctx)"

text \<open>
  The location of a block, from the locations of its first and last statement.  The
  branch for a last statement with a location and a first one without reads the
  variable \<open>loastloc\<close>, which is not defined.
\<close>

definition make_block_loc ::
    "string option \<Rightarrow> position option \<Rightarrow> position option \<Rightarrow> location option" where
  "make_block_loc file start en =
     (case file of
        None \<Rightarrow> None
      | Some f \<Rightarrow>
          (case start of
             None \<Rightarrow> None
           | Some s \<Rightarrow> if f \<noteq> [] then Some (Location f s en) else None))"

definition block_loc :: "stmt list \<Rightarrow> error + location option" where
  "block_loc stmts =
     (if length stmts > 0 then
        (let firstloc = stmt_loc (stmts ! 0);
             lastloc = stmt_loc (stmts ! (length stmts - 1));
             file = map_option loc_file firstloc;
             start = map_option loc_start firstloc
         in case lastloc of
              None \<Rightarrow> Inr (make_block_loc file start None)
            | Some ll \<Rightarrow>
                (if firstloc = None then Inl (NameError ''loastloc'')
                 else Inr (make_block_loc file start (loc_end ll))))
      else Inr None)"

text \<open>
  The statement dispatch, the loop of \<open>transform_block_stmts\<close> over the nodes, and the
  block it builds.  The context is threaded through, since an assignment may change
  its globals.  \<open>transform_If\<close> passes a non-empty \<open>orelse\<close>, a list, to
  \<open>transform_stmt\<close>, whose dispatch matches no list; \<open>transform_Return\<close> without a
  value reads \<open>expr\<close> before it is bound.
\<close>

fun transform_stmt :: "transform_context \<Rightarrow> py_stmt \<Rightarrow> error + (stmt \<times> transform_context)"
  and transform_stmts ::
    "transform_context \<Rightarrow> py_stmt list \<Rightarrow> error + (stmt list \<times> transform_context)"
  and transform_block_stmts ::
    "transform_context \<Rightarrow> py_stmt list \<Rightarrow> error + (stmt \<times> transform_context)"
where
  "transform_stmt ctx Py_Assert = not_yet_implemented ''Assert''"
| "transform_stmt ctx (Py_Assign targets v r) =
     (case targets of
        [t] \<Rightarrow>
          (case transform_expr ctx t of
             Inl e \<Rightarrow> Inl e
           | Inr lhs \<Rightarrow>
               (let ctx' = track_assign ctx (IrNode lhs) in
                case transform_expr ctx' v of
                  Inl e \<Rightarrow> Inl e
                | Inr rhs \<Rightarrow>
                    Inr (ExpressionStatement
                           (BinaryOperatorExpression lhs binop_assign rhs
                              (loc_from ctx' (Some r))) None, ctx')))
      | _ \<Rightarrow> Inl (AssertionError ''TODO: multi-assignments not yet supported''))"
| "transform_stmt ctx Py_AugAssign = not_yet_implemented ''AugAssign''"
| "transform_stmt ctx (Py_Break r) = Inr (Break (loc_from ctx (Some r)), ctx)"
| "transform_stmt ctx Py_ClassDef =
     Inl (AssertionError ''TODO: classes in non-top-level positions not yet supported'')"
| "transform_stmt ctx (Py_Continue r) = Inr (Continue (loc_from ctx (Some r)), ctx)"
| "transform_stmt ctx Py_Delete = not_yet_implemented ''Delete''"
| "transform_stmt ctx Py_Exec = not_yet_implemented ''Exec''"
| "transform_stmt ctx (Py_Expr v r) =
     (case transform_expr ctx v of
        Inl e \<Rightarrow> Inl e
      | Inr ex \<Rightarrow> Inr (ExpressionStatement ex (loc_from ctx (Some r)), ctx))"
| "transform_stmt ctx Py_For = not_yet_implemented ''For''"
| "transform_stmt ctx (Py_FunctionDef nm args args_loc body r) =
     Inl (AssertionError ''TODO: functions in non-top-level positions not yet supported'')"
| "transform_stmt ctx Py_Global = not_yet_implemented ''Global''"
| "transform_stmt ctx (Py_If t body orelse r) =
     (case transform_expr ctx t of
        Inl e \<Rightarrow> Inl e
      | Inr cond \<Rightarrow>
          (case transform_block_stmts ctx body of
             Inl e \<Rightarrow> Inl e
           | Inr (cons, ctx') \<Rightarrow>
               (if orelse \<noteq> [] then Inl (AssertionError ''Unrecognized statement node: list'')
                else Inr (IfStatement cond cons None (loc_from ctx' (Some r)), ctx'))))"
| "transform_stmt ctx (Py_Import names r) =
     Inl (AssertionError ''TODO: imports in non-top-level positions not yet supported'')"
| "transform_stmt ctx Py_ImportFrom =
     Inl (AssertionError ''TODO: imports in non-top-level positions not yet supported'')"
| "transform_stmt ctx Py_Nonlocal = not_yet_implemented ''Nonlocal''"
| "transform_stmt ctx (Py_Pass r) = Inr (EmptyStatement (loc_from ctx (Some r)), ctx)"
| "transform_stmt ctx Py_Print = not_yet_implemented ''Print''"
| "transform_stmt ctx Py_Raise = not_yet_implemented ''Raise''"
| "transform_stmt ctx (Py_Return v r) =
     (case v of
        None \<Rightarrow> Inl (UnboundLocalError ''expr'')
      | Some ve \<Rightarrow>
          (case transform_expr ctx ve of
             Inl e \<Rightarrow> Inl e
           | Inr ex \<Rightarrow> Inr (ReturnStatement ex (loc_from ctx (Some r)), ctx)))"
| "transform_stmt ctx Py_Try = not_yet_implemented ''Try''"
| "transform_stmt ctx Py_While = not_yet_implemented ''While''"
| "transform_stmt ctx Py_With = not_yet_implemented ''With''"
| "transform_stmt ctx (Py_OtherStmt k) = Inl (AssertionError ''Unrecognized statement node'')"
| "transform_stmts ctx [] = Inr ([], ctx)"
| "transform_stmts ctx (n # ns) =
     (case transform_stmt ctx n of
        Inl e \<Rightarrow> Inl e
      | Inr (s, ctx') \<Rightarrow>
          (case transform_stmts ctx' ns of
             Inl e \<Rightarrow> Inl e
           | Inr (ss, ctx'') \<Rightarrow> Inr (s # ss, ctx'')))"
| "transform_block_stmts ctx nodes =
     (case transform_stmts ctx nodes of
        Inl e \<Rightarrow> Inl e
      | Inr (stmts, ctx') \<Rightarrow>
          (case block_loc stmts of
             Inl e \<Rightarrow> Inl e
           | Inr loc \<Rightarrow> Inr (Block stmts loc, ctx')))"

subsection \<open>Definitions\<close>

text \<open>
  \<open>transform_FunctionDef\<close> on the node \<open>Py_FunctionDef nm args args_loc body r\<close>.  The
  block \<open>body\<close> is computed, and the method is then built from the identifier, the
  parameters and the return type only.  The function of the context is restored.
\<close>

definition transform_FunctionDef ::
    "tokens \<Rightarrow> transform_context \<Rightarrow> string \<Rightarrow> py_arg list \<Rightarrow> py_range \<Rightarrow> py_stmt list \<Rightarrow>
     py_range \<Rightarrow> error + (module_member \<times> transform_context)" where
  "transform_FunctionDef tk ctx nm args args_loc body r =
     (let oldfunc = func ctx;
          ctx1 = ctx\<lparr>func := Some (Py_FunctionDef nm args args_loc body r)\<rparr>;
          idn = ident_from ctx1 nm None;
          params =
            map (\<lambda>arg. LocalVariable (ident_from ctx1 arg None)
                          (type_token ctx1 (type_dynamic tk) None)
                          (loc_from ctx1 (Some args_loc))) args
      in case transform_block_stmts ctx1 body of
           Inl e \<Rightarrow> Inl e
         | Inr (blk, ctx2) \<Rightarrow>
             Inr (ModuleMethod idn (Some params)
                    (Some (type_token ctx2 (type_dynamic tk) None)) None
                    (loc_from ctx2 (Some r)),
                  ctx2\<lparr>func := oldfunc\<rparr>))"

definition transform_ClassDef :: "error + (module_member \<times> transform_context)" where
  "transform_ClassDef = not_yet_implemented ''ClassDef''"

text \<open>\<open>name.replace(".", tokens.name_delim)\<close> on a string.\<close>

definition replace_dots :: "string \<Rightarrow> string \<Rightarrow> string" where
  "replace_dots nd s = concat (map (\<lambda>c. if c = CHR ''.'' then nd else [c]) s)"

text \<open>
  The module tokens of an import: the set that the source builds of one freshly built
  token for each name, as a multiset.
\<close>

fun transform_Import ::
    "tokens \<Rightarrow> transform_context \<Rightarrow> py_alias list \<Rightarrow> module_token multiset" where
  "transform_Import tk ctx [] = {#}"
| "transform_Import tk ctx (Py_alias n r # names) =
     add_mset (ModuleToken (replace_dots (name_delim tk) n) (loc_from ctx (Some r)))
       (transform_Import tk ctx names)"

fun member_name :: "module_member \<Rightarrow> string" where
  "member_name (ModuleProperty idn ty) = ident idn"
| "member_name (ModuleMethod idn ps rt body l) = ident idn"

text \<open>
  The loop of \<open>transform_Module\<close> over the top-level statements, on the members, the
  statements of the initializer and the imports gathered so far.
\<close>

fun module_body ::
    "tokens \<Rightarrow> transform_context \<Rightarrow> module_member dict \<Rightarrow> stmt list \<Rightarrow>
     module_token multiset \<Rightarrow> py_stmt list \<Rightarrow>
     error + (module_member dict \<times> stmt list \<times> module_token multiset \<times> transform_context)" where
  "module_body tk ctx mems initstmts imports [] = Inr (mems, initstmts, imports, ctx)"
| "module_body tk ctx mems initstmts imports (Py_FunctionDef nm args args_loc body r # rest) =
     (case transform_FunctionDef tk ctx nm args args_loc body r of
        Inl e \<Rightarrow> Inl e
      | Inr (f, ctx') \<Rightarrow>
          module_body tk ctx' (AList.update (member_name f) f mems) initstmts imports rest)"
| "module_body tk ctx mems initstmts imports (Py_ClassDef # rest) =
     (case transform_ClassDef of
        Inl e \<Rightarrow> Inl e
      | Inr (clazz, ctx') \<Rightarrow>
          module_body tk ctx' (AList.update (member_name clazz) clazz mems) initstmts imports rest)"
| "module_body tk ctx mems initstmts imports (Py_Import names r # rest) =
     module_body tk ctx mems initstmts (imports + transform_Import tk ctx names) rest"
| "module_body tk ctx mems initstmts imports (st # rest) =
     (case transform_stmt ctx st of
        Inl e \<Rightarrow> Inl e
      | Inr (initstmt, ctx') \<Rightarrow>
          module_body tk ctx' mems (initstmts @ [initstmt]) imports rest)"

text \<open>The loop over the globals of the context: each becomes a module property.\<close>

fun add_globals ::
    "tokens \<Rightarrow> transform_context \<Rightarrow> string list \<Rightarrow> module_member dict \<Rightarrow>
     error + module_member dict" where
  "add_globals tk ctx [] mems = Inr mems"
| "add_globals tk ctx (propname # ps) mems =
     (if propname \<in> fst ` set mems
      then Inl (AssertionError ''Module property unexpectedly clashes with a prior declaration'')
      else add_globals tk ctx ps
             (AList.update propname
                (ModuleProperty (ident_from ctx propname None)
                   (type_token ctx (type_dynamic tk) None)) mems))"

text \<open>
  The loop that builds the exports.  It rebinds the variable \<open>name\<close>, so the function
  returns the exports together with the last key, or the module's name when there is
  no member.
\<close>

fun make_exports ::
    "tokens \<Rightarrow> transform_context \<Rightarrow> string \<Rightarrow> string list \<Rightarrow> ir_export dict \<Rightarrow> string \<Rightarrow>
     ir_export dict \<times> string" where
  "make_exports tk ctx modtok [] exports nm = (exports, nm)"
| "make_exports tk ctx modtok (k # ks) exports nm =
     make_exports tk ctx modtok ks
       (AList.update k (Export (ident_from ctx k None) (Token (modtok @ delim tk @ k))) exports) k"

text \<open>
  \<open>transform_Module\<close>.  A dict is iterated in the order of its association list.
\<close>

definition transform_Module ::
    "tokens \<Rightarrow> package \<Rightarrow> transform_context \<Rightarrow> string \<Rightarrow> py_stmt list \<Rightarrow>
     error + (ir_module \<times> transform_context)" where
  "transform_Module tk pkg ctx nm body =
     (let var_modname = ''__name__'';
          mems0 =
            AList.update var_modname
              (ModuleProperty (ident_from ctx var_modname None)
                 (type_token ctx (type_dynamic tk) None)) [];
          modname_init =
            BinaryOperatorExpression (LoadLocationExpression (Token var_modname) None)
              binop_assign (StringLiteral ''__main__'' None) None;
          initstmts0 = [ExpressionStatement modname_init None]
      in case module_body tk ctx mems0 initstmts0 {#} body of
           Inl e \<Rightarrow> Inl e
         | Inr (mems1, initstmts, imports, ctx1) \<Rightarrow>
             (let mems2 =
                    (if length initstmts > 0
                     then AList.update (func_init tk)
                            (ModuleMethod (ident_from ctx1 (func_init tk) None) None None
                               (Some (Block initstmts None)) None) mems1
                     else mems1);
                  mems3 =
                    AList.update (func_entrypoint tk)
                      (ModuleMethod (ident_from ctx1 (func_entrypoint tk) None) None None
                         (Some (Block [] None)) None) mems2
              in case add_globals tk ctx1 (globals ctx1) mems3 of
                   Inl e \<Rightarrow> Inl e
                 | Inr mems4 \<Rightarrow>
                     (case current_module_token tk pkg ctx1 of
                        Inl e \<Rightarrow> Inl e
                      | Inr modtok \<Rightarrow>
                          (case make_exports tk ctx1 modtok (map fst mems4) [] nm of
                             (exports, nm') \<Rightarrow>
                               Inr (Module (ident_from ctx1 nm' None) imports exports mems4,
                                    ctx1)))))"

text \<open>
  \<open>transform\<close>: each module is lowered in a fresh context and stored in the module
  table of the package under its name.
\<close>

fun transform :: "tokens \<Rightarrow> package \<Rightarrow> module_spec list \<Rightarrow> error + package" where
  "transform tk pkg [] = Inr pkg"
| "transform tk pkg (m # ms) =
     (case transform_Module tk pkg (Context m) (ms_name m) (py_module m) of
        Inl e \<Rightarrow> Inl e
      | Inr (md, ctx') \<Rightarrow>
          (if ms_name m \<in> fst ` set (modules pkg)
           then Inl (AssertionError ''Module already exists'')
           else transform tk (pkg\<lparr>modules := AList.update (ms_name m) md (modules pkg)\<rparr>) ms))"

section \<open>The loader\<close>

subsection \<open>Paths (os.path)\<close>

text \<open>
  \<open>path.join\<close> of two strings and \<open>path.normpath\<close>, as the POSIX implementation of the
  Python library computes them.
\<close>

definition startswith :: "string \<Rightarrow> string \<Rightarrow> bool" where
  "startswith s p = (take (length p) s = p)"

definition endswith :: "string \<Rightarrow> string \<Rightarrow> bool" where
  "endswith s p = (length p \<le> length s \<and> drop (length s - length p) s = p)"

definition path_join :: "string \<Rightarrow> string \<Rightarrow> string" where
  "path_join a b =
     (if startswith b ''/'' then b
      else if a = [] \<or> endswith a ''/'' then a @ b
      else a @ ''/'' @ b)"

fun split_slash :: "string \<Rightarrow> string list" where
  "split_slash [] = [[]]"
| "split_slash (c # cs) =
     (if c = CHR ''/'' then [] # split_slash cs
      else (case split_slash cs of [] \<Rightarrow> [[c]] | w # ws \<Rightarrow> (c # w) # ws))"

fun join_slash :: "string list \<Rightarrow> string" where
  "join_slash [] = []"
| "join_slash [c] = c"
| "join_slash (c # cs) = c @ ''/'' @ join_slash cs"

fun norm_comps :: "nat \<Rightarrow> string list \<Rightarrow> string list \<Rightarrow> string list" where
  "norm_comps initial_slashes new_comps [] = new_comps"
| "norm_comps initial_slashes new_comps (c # comps) =
     (if c = [] \<or> c = ''.'' then norm_comps initial_slashes new_comps comps
      else if c = ''..'' \<and> (0 < initial_slashes \<or> new_comps \<noteq> [])
                \<and> (new_comps = [] \<or> last new_comps \<noteq> ''..'')
      then (if new_comps \<noteq> [] then norm_comps initial_slashes (butlast new_comps) comps
            else norm_comps initial_slashes new_comps comps)
      else norm_comps initial_slashes (new_comps @ [c]) comps)"

definition normpath :: "string \<Rightarrow> string" where
  "normpath path =
     (if path = [] then ''.''
      else
        (let initial_slashes =
               (if startswith path ''/''
                then (if startswith path ''//'' \<and> \<not> startswith path ''///'' then 2 else 1)
                else (0::nat));
             comps = norm_comps initial_slashes [] (split_slash path);
             p = join_slash comps;
             p' = (if 0 < initial_slashes then replicate initial_slashes CHR ''/'' @ p else p)
         in if p' = [] then ''.'' else p'))"

subsection \<open>Descriptors, the file system and the cache\<close>

text \<open>
  The file system maps a path to the contents that \<open>open\<close> and \<open>read\<close> return; a path
  it does not map makes \<open>open\<close> raise an IOError.  An unmarshaler returns a dict or
  raises.  \<open>pack.unmarshalers\<close> is iterated in the order of the association list.  The
  constants of \<^verbatim>\<open>cocopy/lib/pack.py\<close>, which is not among the sources, are a parameter.
\<close>

type_synonym filesystem = "string \<rightharpoonup> string"

type_synonym unmarshaler = "string \<Rightarrow> error + pyval dict"

type_synonym cache = "string \<rightharpoonup> package"

record pack =
  coconut_proj_base :: string
  coconut_project_base :: string
  coconut_package_base :: string
  unmarshalers :: "(string \<times> unmarshaler) list"

definition dict_get :: "pyval dict \<Rightarrow> string \<Rightarrow> pyval" where
  "dict_get d k = (case map_of d k of None \<Rightarrow> PNone | Some v \<Rightarrow> v)"

definition Package :: "pyval dict \<Rightarrow> package" where
  "Package d =
     \<lparr>pkg_name = dict_get d ''name'',
      description = dict_get d ''description'',
      author = dict_get d ''author'',
      website = dict_get d ''website'',
      license = dict_get d ''license'',
      dependencies = dict_get d ''dependencies'',
      modules = []\<rparr>"

text \<open>
  What the loader does is recorded as a trace: each cache lookup, each \<open>open\<close> that
  fails, each file that is read and each call of an unmarshaler, with the path and,
  for the unmarshaler, with what it returned.
\<close>

datatype event =
    CacheGet string
  | OpenFailed string
  | ReadFile string
  | Unmarshal string "error + pyval dict"

fun event_path :: "event \<Rightarrow> string" where
  "event_path (CacheGet p) = p"
| "event_path (OpenFailed p) = p"
| "event_path (ReadFile p) = p"
| "event_path (Unmarshal p res) = p"

text \<open>
  How the probing of one directory ends: \<open>Returned\<close> is the \<open>return\<close> of a cached
  package, \<open>Raised\<close> an exception that leaves the function, \<open>Found\<close> the \<open>break\<close> with
  a package loaded from the path, and \<open>NotFound\<close> the end of the loop with no package,
  with the values of the variables \<open>base\<close> and \<open>pkgpath\<close> when they are bound.
\<close>

datatype probe =
    Returned package
  | Raised error
  | Found package string
  | NotFound "string option" "string option"

subsection \<open>loadCore\<close>

text \<open>The loop over the extensions, for one base.\<close>

fun probe_exts ::
    "filesystem \<Rightarrow> cache \<Rightarrow> string \<Rightarrow> (string \<times> unmarshaler) list \<Rightarrow> string option \<Rightarrow>
     event list \<Rightarrow> probe \<times> event list" where
  "probe_exts fs cache base [] pkgpath tr = (NotFound (Some base) pkgpath, tr)"
| "probe_exts fs cache base ((ext, unm) # exts) pkgpath0 tr =
     (let pkgpath = base @ ext;
          tr1 = tr @ [CacheGet pkgpath]
      in case cache pkgpath of
           Some pkg \<Rightarrow> (Returned pkg, tr1)
         | None \<Rightarrow>
             (case fs pkgpath of
                None \<Rightarrow> probe_exts fs cache base exts (Some pkgpath) (tr1 @ [OpenFailed pkgpath])
              | Some raw \<Rightarrow>
                  (let tr2 = tr1 @ [ReadFile pkgpath, Unmarshal pkgpath (unm raw)]
                   in case unm raw of
                        Inl e \<Rightarrow>
                          (if e = IOError then probe_exts fs cache base exts (Some pkgpath) tr2
                           else (Raised e, tr2))
                      | Inr d \<Rightarrow>
                          (if \<not> truthy (dict_get d ''name'')
                           then (Raised (MissingName pkgpath), tr2)
                           else (Found (Package d) pkgpath, tr2)))))"

text \<open>The loop over the file bases, for one directory.\<close>

fun probe_filebases ::
    "filesystem \<Rightarrow> cache \<Rightarrow> string \<Rightarrow> string list \<Rightarrow> (string \<times> unmarshaler) list \<Rightarrow>
     string option \<Rightarrow> string option \<Rightarrow> event list \<Rightarrow> probe \<times> event list" where
  "probe_filebases fs cache search [] exts base pkgpath tr = (NotFound base pkgpath, tr)"
| "probe_filebases fs cache search (filebase # filebases) exts base0 pkgpath tr =
     (case probe_exts fs cache (path_join search filebase) exts pkgpath tr of
        (NotFound base pkgpath', tr') \<Rightarrow>
          probe_filebases fs cache search filebases exts base pkgpath' tr'
      | (r, tr') \<Rightarrow> (r, tr'))"

text \<open>
  The \<open>while\<close> loop, one directory per iteration.  It need not end, so it runs on
  fuel: \<open>None\<close> is a loop that is still running when the fuel is used up.  A result is
  the exception raised, or the package with the cache as the call leaves it.
\<close>

type_synonym load_result = "(error + package \<times> cache) \<times> event list"

fun loadCore_while ::
    "nat \<Rightarrow> filesystem \<Rightarrow> cache \<Rightarrow> string \<Rightarrow> string \<Rightarrow> string list \<Rightarrow>
     (string \<times> unmarshaler) list \<Rightarrow> bool \<Rightarrow> string option \<Rightarrow> string option \<Rightarrow> event list \<Rightarrow>
     load_result option" where
  "loadCore_while 0 fs cache root search filebases exts upwards base pkgpath tr = None"
| "loadCore_while (Suc n) fs cache root search filebases exts upwards base0 pkgpath0 tr =
     (case probe_filebases fs cache search filebases exts base0 pkgpath0 tr of
        (Returned pkg, tr') \<Rightarrow> Some (Inr (pkg, cache), tr')
      | (Raised e, tr') \<Rightarrow> Some (Inl e, tr')
      | (Found pkg pkgpath, tr') \<Rightarrow> Some (Inr (pkg, cache(pkgpath \<mapsto> pkg)), tr')
      | (NotFound base pkgpath, tr') \<Rightarrow>
          (if upwards then
             (case base of
                None \<Rightarrow> Some (Inl (UnboundLocalError ''base''), tr')
              | Some b \<Rightarrow>
                  (if b = ''/'' then Some (Inl (NoPackageFound root), tr')
                   else loadCore_while n fs cache root (normpath (path_join search ''..''))
                          filebases exts upwards base pkgpath tr'))
           else Some (Inl (NoPackageFound root), tr')))"

definition loadCore ::
    "nat \<Rightarrow> filesystem \<Rightarrow> cache \<Rightarrow> string \<Rightarrow> string list \<Rightarrow> (string \<times> unmarshaler) list \<Rightarrow>
     bool \<Rightarrow> load_result option" where
  "loadCore n fs cache root filebases exts upwards =
     loadCore_while n fs cache root (normpath root) filebases exts upwards None None []"


definition loadDependency :: "nat \<Rightarrow> pack \<Rightarrow> filesystem \<Rightarrow> cache \<Rightarrow> string \<Rightarrow> load_result option" where
  "loadDependency n pk fs cache root =
     loadCore n fs cache root [coconut_project_base pk, coconut_package_base pk]
       (unmarshalers pk) True"

section \<open>Example inputs\<close>

text \<open>
  Concrete values for the parameters, and small programs: the call \<^verbatim>\<open>f('a')\<close>, the
  definition \<^verbatim>\<open>def f(a): return a\<close>, the assignment \<^verbatim>\<open>x = 'a'\<close> and \<^verbatim>\<open>pass\<close>, each
  on the line given.
\<close>

definition example_tokens :: tokens where
  "example_tokens =
     \<lparr>delim = '':'', name_delim = ''/'', type_dynamic = ''dynamic'',
      func_init = ''.init'', func_entrypoint = ''.main''\<rparr>"

definition example_mod :: module_spec where
  "example_mod = \<lparr>ms_name = ''m'', ms_file = ''m.py'', py_module = []\<rparr>"

definition example_ctx :: transform_context where
  "example_ctx = Context example_mod"

definition example_pkg :: package where
  "example_pkg = Package [(''name'', PStr ''pkg'')]"

definition rng :: "nat \<Rightarrow> nat \<Rightarrow> nat \<Rightarrow> nat \<Rightarrow> py_range" where
  "rng l c el ec = \<lparr>line = l, column = c, end_line = el, end_column = ec\<rparr>"

definition call_f_a :: py_expr where
  "call_f_a = Py_Call (Py_Name ''f'' None (rng 1 0 1 1)) [Py_Str ''a'' (rng 1 2 1 5)] (rng 1 0 1 6)"

definition return_a :: py_stmt where
  "return_a = Py_Return (Some (Py_Name ''a'' None (rng 1 17 1 18))) (rng 1 10 1 18)"

definition def_f :: py_stmt where
  "def_f = Py_FunctionDef ''f'' [Py_arg ''a'' (rng 1 6 1 7)] (rng 1 6 1 7) [return_a] (rng 1 0 1 18)"

definition assign_x :: "nat \<Rightarrow> py_stmt" where
  "assign_x l = Py_Assign [Py_Name ''x'' None (rng l 0 l 1)] (Py_Str ''a'' (rng l 4 l 7)) (rng l 0 l 7)"

definition pass_stmt :: "nat \<Rightarrow> py_stmt" where
  "pass_stmt l = Py_Pass (rng l 0 l 4)"

text \<open>
  A codec that knows three file contents: a descriptor with a name, one without, and
  one on which it raises an IOError.  A file system is given by the list of its files.
\<close>

definition example_codec :: unmarshaler where
  "example_codec raw =
     (if raw = ''name: pkg'' then Inr [(''name'', PStr ''pkg'')]
      else if raw = ''author: me'' then Inr [(''author'', PStr ''me'')]
      else if raw = ''io'' then Inl IOError
      else Inl (CodecError ''syntax''))"

definition example_pack :: pack where
  "example_pack =
     \<lparr>coconut_proj_base = ''Coconut'', coconut_project_base = ''Coconut'',
      coconut_package_base = ''Cocopack'',
      unmarshalers = [(''.json'', example_codec), (''.yaml'', example_codec)]\<rparr>"

definition files :: "(string \<times> string) list \<Rightarrow> filesystem" where
  "files fl = map_of fl"

definition no_cache :: cache where
  "no_cache = Map.empty"


definition fs_nameless :: filesystem where
  "fs_nameless = files [(''/p/Coconut.json'', ''author: me''), (''/p/Coconut.yaml'', ''name: pkg'')]"



definition import_os_path :: py_stmt where
  "import_os_path = Py_Import [Py_alias ''os.path'' (rng 1 7 1 14)] (rng 1 0 1 14)"

section \<open>Notions used in the statements\<close>

text \<open>
  The statement that \<open>transform_Module\<close> puts first in the initializer (the assignment
  of \<^verbatim>\<open>"__main__"\<close> to \<^verbatim>\<open>__name__\<close>), and the top-level statements that are function
  definitions or imports.
\<close>

definition modname_init :: stmt where
  "modname_init =
     ExpressionStatement
       (BinaryOperatorExpression (LoadLocationExpression (Token ''__name__'') None)
          binop_assign (StringLiteral ''__main__'' None) None) None"

fun def_or_import :: "py_stmt \<Rightarrow> bool" where
  "def_or_import (Py_FunctionDef nm args args_loc body r) = True"
| "def_or_import (Py_Import names r) = True"
| "def_or_import s = False"

text \<open>
  The directories that the loop of \<open>loadCore\<close> visits, from the directory it starts in:
  each is the parent of the one before.
\<close>

definition parent_dir :: "string \<Rightarrow> string" where
  "parent_dir search = normpath (path_join search ''..'')"

primrec dir_above :: "nat \<Rightarrow> string \<Rightarrow> string" where
  "dir_above 0 search = search"
| "dir_above (Suc j) search = dir_above j (parent_dir search)"

text \<open>
  The candidates of a directory, in the order in which the loops try them: a path with
  the codec of its extension.  A candidate is passed over when the cache has nothing
  under its path and either the file cannot be opened or its codec raises an IOError.
\<close>

type_synonym candidate = "string \<times> unmarshaler"

definition candidates ::
    "string \<Rightarrow> string list \<Rightarrow> (string \<times> unmarshaler) list \<Rightarrow> candidate list" where
  "candidates search filebases exts =
     concat (map (\<lambda>filebase. map (\<lambda>(ext, unm). (path_join search filebase @ ext, unm)) exts)
               filebases)"

definition skipped :: "filesystem \<Rightarrow> cache \<Rightarrow> candidate \<Rightarrow> bool" where
  "skipped fs cache c =
     (cache (fst c) = None \<and>
      (case fs (fst c) of None \<Rightarrow> True | Some raw \<Rightarrow> snd c raw = Inl IOError))"

section \<open>Evaluation of the example programs\<close>

lemmas example_defs =
  example_tokens_def example_mod_def example_ctx_def example_pkg_def rng_def Context_def
  Package_def dict_get_def

lemmas lowering_defs =
  loc_from_def ident_from_def type_token_def track_assign_def block_loc_def
  make_block_loc_def current_module_token_def transform_FunctionDef_def
  transform_Module_def replace_dots_def Let_def

lemma transform_Module_def_f:
  "transform_Module example_tokens example_pkg example_ctx ''m'' [def_f] =
     Inr (Module (Identifier ''.main'' None) {#}
       [(''__name__'', Export (Identifier ''__name__'' None) (Token ''pkg:m:__name__'')),
        (''f'', Export (Identifier ''f'' None) (Token ''pkg:m:f'')),
        (''.init'', Export (Identifier ''.init'' None) (Token ''pkg:m:.init'')),
        (''.main'', Export (Identifier ''.main'' None) (Token ''pkg:m:.main''))]
       [(''__name__'',
         ModuleProperty (Identifier ''__name__'' None) (TypeToken ''dynamic'' None)),
        (''f'',
         ModuleMethod (Identifier ''f'' None)
          (Some [LocalVariable (Identifier (Py_arg ''a'' (rng 1 6 1 7)) None)
                   (TypeToken ''dynamic'' None)
                   (Some (Location ''m.py'' (Position 1 7) (Some (Position 1 8))))])
          (Some (TypeToken ''dynamic'' None)) None
          (Some (Location ''m.py'' (Position 1 1) (Some (Position 1 19))))),
        (''.init'',
         ModuleMethod (Identifier ''.init'' None) None None
           (Some (Block [modname_init] None)) None),
        (''.main'',
         ModuleMethod (Identifier ''.main'' None) None None (Some (Block [] None)) None)],
      example_ctx)"
  by (simp add: def_f_def return_a_def modname_init_def example_defs lowering_defs)

lemma transform_Module_import_def_f:
  "transform_Module example_tokens example_pkg example_ctx ''m'' [import_os_path, def_f] =
     Inr (Module (Identifier ''.main'' None)
       {#ModuleToken ''os/path'' (Some (Location ''m.py'' (Position 1 8) (Some (Position 1 15))))#}
       [(''__name__'', Export (Identifier ''__name__'' None) (Token ''pkg:m:__name__'')),
        (''f'', Export (Identifier ''f'' None) (Token ''pkg:m:f'')),
        (''.init'', Export (Identifier ''.init'' None) (Token ''pkg:m:.init'')),
        (''.main'', Export (Identifier ''.main'' None) (Token ''pkg:m:.main''))]
       [(''__name__'',
         ModuleProperty (Identifier ''__name__'' None) (TypeToken ''dynamic'' None)),
        (''f'',
         ModuleMethod (Identifier ''f'' None)
          (Some [LocalVariable (Identifier (Py_arg ''a'' (rng 1 6 1 7)) None)
                   (TypeToken ''dynamic'' None)
                   (Some (Location ''m.py'' (Position 1 7) (Some (Position 1 8))))])
          (Some (TypeToken ''dynamic'' None)) None
          (Some (Location ''m.py'' (Position 1 1) (Some (Position 1 19))))),
        (''.init'',
         ModuleMethod (Identifier ''.init'' None) None None
           (Some (Block [modname_init] None)) None),
        (''.main'',
         ModuleMethod (Identifier ''.main'' None) None None (Some (Block [] None)) None)],
      example_ctx)"
  by (simp add: import_os_path_def def_f_def return_a_def modname_init_def example_defs
        lowering_defs)

lemma transform_Module_assign_x:
  "transform_Module example_tokens example_pkg example_ctx ''m'' [assign_x 1] =
    Inr (Module (Identifier ''.main'' None) {#}
       [(''__name__'', Export (Identifier ''__name__'' None) (Token ''pkg:m:__name__'')),
        (''.init'', Export (Identifier ''.init'' None) (Token ''pkg:m:.init'')),
        (''.main'', Export (Identifier ''.main'' None) (Token ''pkg:m:.main''))]
       [(''__name__'',
         ModuleProperty (Identifier ''__name__'' None) (TypeToken ''dynamic'' None)),
        (''.init'',
         ModuleMethod (Identifier ''.init'' None) None None
          (Some (Block
              [modname_init,
               ExpressionStatement
                (BinaryOperatorExpression
                  (LoadLocationExpression (Token ''x'')
                    (Some (Location ''m.py'' (Position 1 1) (Some (Position 1 2)))))
                  binop_assign
                  (StringLiteral ''a''
                    (Some (Location ''m.py'' (Position 1 5) (Some (Position 1 8)))))
                  (Some (Location ''m.py'' (Position 1 1) (Some (Position 1 8)))))
                None]
              None))
          None),
        (''.main'',
         ModuleMethod (Identifier ''.main'' None) None None (Some (Block [] None)) None)],
      example_ctx)"
  by (simp add: assign_x_def modname_init_def example_defs lowering_defs)

lemma transform_Module_empty:
  "transform_Module example_tokens example_pkg example_ctx ''m'' [] =
    Inr (Module (Identifier ''.main'' None) {#}
       [(''__name__'', Export (Identifier ''__name__'' None) (Token ''pkg:m:__name__'')),
        (''.init'', Export (Identifier ''.init'' None) (Token ''pkg:m:.init'')),
        (''.main'', Export (Identifier ''.main'' None) (Token ''pkg:m:.main''))]
       [(''__name__'',
         ModuleProperty (Identifier ''__name__'' None) (TypeToken ''dynamic'' None)),
        (''.init'',
         ModuleMethod (Identifier ''.init'' None) None None
           (Some (Block [modname_init] None)) None),
        (''.main'',
         ModuleMethod (Identifier ''.main'' None) None None (Some (Block [] None)) None)],
      example_ctx)"
  by (simp add: modname_init_def example_defs lowering_defs)

lemma block_pass_assign:
  "transform_block_stmts example_ctx [pass_stmt 1, assign_x 2] =
     Inr (Block
       [EmptyStatement (Some (Location ''m.py'' (Position 1 1) (Some (Position 1 5)))),
        ExpressionStatement
         (BinaryOperatorExpression
           (LoadLocationExpression (Token ''x'')
             (Some (Location ''m.py'' (Position 2 1) (Some (Position 2 2)))))
           binop_assign
           (StringLiteral ''a''
             (Some (Location ''m.py'' (Position 2 5) (Some (Position 2 8)))))
           (Some (Location ''m.py'' (Position 2 1) (Some (Position 2 8)))))
         None]
       (Some (Location ''m.py'' (Position 1 1) None)),
      example_ctx)"
  by (simp add: pass_stmt_def assign_x_def example_defs lowering_defs)

lemma block_pass_pass:
  "transform_block_stmts example_ctx [pass_stmt 1, pass_stmt 2] =
     Inr (Block
       [EmptyStatement (Some (Location ''m.py'' (Position 1 1) (Some (Position 1 5)))),
        EmptyStatement (Some (Location ''m.py'' (Position 2 1) (Some (Position 2 5))))]
       (Some (Location ''m.py'' (Position 1 1) (Some (Position 2 5)))),
      example_ctx)"
  by (simp add: pass_stmt_def example_defs lowering_defs)

lemma block_assign_pass:
  "transform_block_stmts example_ctx [assign_x 1, pass_stmt 2] = Inl (NameError ''loastloc'')"
  by (simp add: pass_stmt_def assign_x_def example_defs lowering_defs)

lemma block_return_a:
  "transform_block_stmts (example_ctx\<lparr>func := Some def_f\<rparr>) [return_a] =
     Inr (Block
       [ReturnStatement
         (LoadLocationExpression (Token ''a'')
           (Some (Location ''m.py'' (Position 1 18) (Some (Position 1 19)))))
         (Some (Location ''m.py'' (Position 1 11) (Some (Position 1 19))))]
       (Some (Location ''m.py'' (Position 1 11) (Some (Position 1 19)))),
      example_ctx\<lparr>func := Some def_f\<rparr>)"
  by (simp add: return_a_def example_defs lowering_defs)

section \<open>Expressions\<close>

lemma transform_Call_ignores_args:
  "transform_expr ctx (Py_Call f as r) = transform_expr ctx (Py_Call f [] r)"
  by simp

text \<open>
  C1.  A call is to lower to an invocation whose argument list holds the lowering of
  every argument of the call, in order.  The code does not do so: the call \<^verbatim>\<open>f('a')\<close>,
  which has one argument, lowers to an invocation of \<open>f\<close> with an empty argument list.
\<close>

theorem transform_Call_f_a:
  "transform_expr example_ctx call_f_a =
     Inr (InvokeFunctionExpression
            (LoadLocationExpression (Token ''f'')
               (Some (Location ''m.py'' (Position 1 1) (Some (Position 1 2)))))
            []
            (Some (Location ''m.py'' (Position 1 1) (Some (Position 1 7)))))"
  by (simp add: call_f_a_def example_defs loc_from_def)

text \<open>
  C5.  A numeric literal is to lower to a number literal with the value of the node.
  The code does not do so: for every numeric literal, lowering raises an AttributeError
  and produces no literal.
\<close>

theorem transform_Num_raises:
  "transform_expr ctx (Py_Num n r) =
     Inl (AttributeError ''Transformer instance has no attribute value'')"
  by (simp add: transform_Num_def)

section \<open>Definitions and assignments\<close>

lemma transform_FunctionDef_no_body:
  assumes "transform_FunctionDef tk ctx nm args args_loc body r = Inr (f, ctx')"
  shows "\<exists>idn ps rt l. f = ModuleMethod idn ps rt None l"
  using assms
  by (auto simp add: transform_FunctionDef_def Let_def simp del: transform_block_stmts.simps
        split: sum.splits prod.splits)

text \<open>
  C2.  A top-level function definition is to give a method whose body is the lowering
  of the statements of the function.  The code does not do so: the body of
  \<^verbatim>\<open>def f(a): return a\<close> lowers to a block that returns a load of \<open>a\<close>, and the method \<open>f\<close>
  of the module has its parameter and its return type, but no body.
\<close>

theorem transform_FunctionDef_f_has_no_body:
  "transform_block_stmts (example_ctx\<lparr>func := Some def_f\<rparr>) [return_a] =
     Inr (Block
       [ReturnStatement
         (LoadLocationExpression (Token ''a'')
           (Some (Location ''m.py'' (Position 1 18) (Some (Position 1 19)))))
         (Some (Location ''m.py'' (Position 1 11) (Some (Position 1 19))))]
       (Some (Location ''m.py'' (Position 1 11) (Some (Position 1 19)))),
      example_ctx\<lparr>func := Some def_f\<rparr>)
   \<and> (case transform_Module example_tokens example_pkg example_ctx ''m'' [def_f] of
        Inl e \<Rightarrow> False
      | Inr (m, c) \<Rightarrow>
          map_of (members m) ''f'' =
            Some (ModuleMethod (Identifier ''f'' None)
                    (Some [LocalVariable (Identifier (Py_arg ''a'' (rng 1 6 1 7)) None)
                             (TypeToken ''dynamic'' None)
                             (Some (Location ''m.py'' (Position 1 7) (Some (Position 1 8))))])
                    (Some (TypeToken ''dynamic'' None)) None
                    (Some (Location ''m.py'' (Position 1 1) (Some (Position 1 19))))))"
  unfolding block_return_a transform_Module_def_f by simp

lemma transform_Assign_keeps_context:
  assumes "transform_stmt ctx (Py_Assign [Py_Name x c r] v r') = Inr (s, ctx')"
  shows "ctx' = ctx"
  using assms by (auto simp: track_assign_def Let_def split: sum.splits if_splits)

text \<open>
  C3.  A top-level assignment to a bare name is to add the name to the globals of the
  context, and the name is then a property of the module.  The code does not do so: for
  the module \<^verbatim>\<open>x = 'a'\<close> the globals stay empty, and the module has no member \<open>x\<close>.
\<close>

theorem transform_Module_assign_x_no_property:
  "(case transform_Module example_tokens example_pkg example_ctx ''m'' [assign_x 1] of
      Inl e \<Rightarrow> False
    | Inr (m, c) \<Rightarrow> globals c = [] \<and> map_of (members m) ''x'' = None)"
  unfolding transform_Module_assign_x by (simp add: example_ctx_def Context_def)

section \<open>Blocks\<close>

lemma stmts_pass_pass:
  "transform_stmts example_ctx [pass_stmt 1, pass_stmt 2] =
     Inr ([EmptyStatement (Some (Location ''m.py'' (Position 1 1) (Some (Position 1 5)))),
           EmptyStatement (Some (Location ''m.py'' (Position 2 1) (Some (Position 2 5))))],
          example_ctx)"
  by (simp add: pass_stmt_def example_defs lowering_defs)

text \<open>
  C7, as the code has it.  A block that is lowered from a list of statements takes its
  file and its start from the location of its first statement, and its end from the
  location of its last statement.  When the statements lower and the first of them has
  a location, the block has one: from the start of the first statement to the end of
  the last, and with no end when the last statement has no location.  When neither the
  first nor the last statement has a location, or there is no statement, the block has
  no location.
\<close>

theorem transform_block_stmts_loc:
  assumes "transform_stmts ctx nodes = Inr (stmts, ctx')"
    and "stmts \<noteq> [] \<and> stmt_loc (hd stmts) = None \<longrightarrow> stmt_loc (last stmts) = None"
  shows "transform_block_stmts ctx nodes =
           Inr (Block stmts
                  (if stmts = [] then None
                   else case stmt_loc (hd stmts) of
                          None \<Rightarrow> None
                        | Some fl \<Rightarrow>
                            if loc_file fl = [] then None
                            else Some (Location (loc_file fl) (loc_start fl)
                                         (case stmt_loc (last stmts) of
                                            None \<Rightarrow> None
                                          | Some ll \<Rightarrow> loc_end ll))),
                ctx')"
proof -
  have "block_loc stmts =
          Inr (if stmts = [] then None
               else case stmt_loc (hd stmts) of
                      None \<Rightarrow> None
                    | Some fl \<Rightarrow>
                        if loc_file fl = [] then None
                        else Some (Location (loc_file fl) (loc_start fl)
                                     (case stmt_loc (last stmts) of
                                        None \<Rightarrow> None
                                      | Some ll \<Rightarrow> loc_end ll)))"
    using assms(2)
    by (auto simp: block_loc_def make_block_loc_def Let_def hd_conv_nth last_conv_nth
          split: option.splits)
  with assms(1) show ?thesis by simp
qed

theorem transform_block_stmts_loc_witness:
  "transform_block_stmts example_ctx [pass_stmt 1, pass_stmt 2] =
     Inr (Block
       [EmptyStatement (Some (Location ''m.py'' (Position 1 1) (Some (Position 1 5)))),
        EmptyStatement (Some (Location ''m.py'' (Position 2 1) (Some (Position 2 5))))]
       (Some (Location ''m.py'' (Position 1 1) (Some (Position 2 5)))),
      example_ctx)"
  using transform_block_stmts_loc[OF stmts_pass_pass] by simp

text \<open>
  The block of \<^verbatim>\<open>pass\<close> followed by \<^verbatim>\<open>x = 'a'\<close>: the assignment statement has no
  location, and the block has a location with a start and no end.
\<close>

theorem transform_block_stmts_partial_loc:
  "transform_block_stmts example_ctx [pass_stmt 1, assign_x 2] =
     Inr (Block
       [EmptyStatement (Some (Location ''m.py'' (Position 1 1) (Some (Position 1 5)))),
        ExpressionStatement
         (BinaryOperatorExpression
           (LoadLocationExpression (Token ''x'')
             (Some (Location ''m.py'' (Position 2 1) (Some (Position 2 2)))))
           binop_assign
           (StringLiteral ''a''
             (Some (Location ''m.py'' (Position 2 5) (Some (Position 2 8)))))
           (Some (Location ''m.py'' (Position 2 1) (Some (Position 2 8)))))
         None]
       (Some (Location ''m.py'' (Position 1 1) None)),
      example_ctx)"
  by (rule block_pass_assign)

section \<open>The members of a module\<close>

lemma module_body_step:
  assumes "module_body tk ctx mems inits imps (st # rest) = Inr res"
  shows "\<exists>ctx' mems' inits' imps'.
           module_body tk ctx' mems' inits' imps' rest = Inr res
         \<and> (mems' = mems \<or> (\<exists>k v. mems' = AList.update k v mems))
         \<and> (\<exists>ex. inits' = inits @ ex)
         \<and> (def_or_import st \<longrightarrow> inits' = inits)"
  using assms
  by (cases st)
     (auto simp del: transform_stmt.simps simp add: transform_ClassDef_def not_yet_implemented_def
           split: sum.splits prod.splits)

lemma module_body_distinct:
  assumes "module_body tk ctx mems inits imps body = Inr (mems', inits', imps', ctx')"
    and "distinct (map fst mems)"
  shows "distinct (map fst mems')"
  using assms
proof (induction body arbitrary: ctx mems inits imps)
  case Nil
  then show ?case by simp
next
  case (Cons st rest)
  from module_body_step[OF Cons.prems(1)] obtain c m i p where
    rest: "module_body tk c m i p rest = Inr (mems', inits', imps', ctx')"
    and m: "m = mems \<or> (\<exists>k v. m = AList.update k v mems)"
    by blast
  from m Cons.prems(2) have "distinct (map fst m)"
    by (auto simp: distinct_update)
  with rest show ?case by (rule Cons.IH)
qed

lemma module_body_inits:
  assumes "module_body tk ctx mems inits imps body = Inr (mems', inits', imps', ctx')"
  shows "\<exists>ex. inits' = inits @ ex \<and> (list_all def_or_import body \<longrightarrow> ex = [])"
  using assms
proof (induction body arbitrary: ctx mems inits imps)
  case Nil
  then show ?case by simp
next
  case (Cons st rest)
  from module_body_step[OF Cons.prems(1)] obtain c m i p where
    rest: "module_body tk c m i p rest = Inr (mems', inits', imps', ctx')"
    and i: "\<exists>ex. i = inits @ ex" "def_or_import st \<longrightarrow> i = inits"
    by blast
  from Cons.IH[OF rest] obtain ex where
    ex: "inits' = i @ ex" "list_all def_or_import rest \<longrightarrow> ex = []"
    by blast
  from i(1) obtain ex0 where ex0: "i = inits @ ex0" by blast
  have "inits' = inits @ (ex0 @ ex)" using ex(1) ex0 by simp
  moreover have "list_all def_or_import (st # rest) \<longrightarrow> ex0 @ ex = []"
    using ex(2) i(2) ex0 by simp
  ultimately show ?case by blast
qed

lemma add_globals_distinct:
  "add_globals tk ctx gs mems = Inr mems' \<Longrightarrow> distinct (map fst mems) \<Longrightarrow>
   distinct (map fst mems')"
  by (induction gs arbitrary: mems) (auto simp: distinct_update split: if_splits)

lemma add_globals_map_of:
  "add_globals tk ctx gs mems = Inr mems' \<Longrightarrow> k \<in> fst ` set mems \<Longrightarrow>
   map_of mems' k = map_of mems k"
proof (induction gs arbitrary: mems)
  case Nil
  then show ?case by simp
next
  case (Cons g gs)
  from Cons.prems(1) have g: "g \<notin> fst ` set mems"
    by (auto split: if_splits)
  let ?m = "AList.update g (ModuleProperty (ident_from ctx g None)
                (type_token ctx (type_dynamic tk) None)) mems"
  from Cons.prems(1) g have "add_globals tk ctx gs ?m = Inr mems'" by simp
  moreover have "k \<in> fst ` set ?m" using Cons.prems(2) by (simp add: dom_update)
  ultimately have "map_of mems' k = map_of ?m k" by (rule Cons.IH)
  also have "\<dots> = map_of mems k" using g Cons.prems(2) by (auto simp: update_conv')
  finally show ?case .
qed

lemma distinct_map_of_filter:
  "distinct (map fst xs) \<Longrightarrow> map_of xs k = Some v \<Longrightarrow>
   filter (\<lambda>kd. fst kd = k) xs = [(k, v)]"
proof (induction xs)
  case Nil
  then show ?case by simp
next
  case (Cons x xs)
  show ?case
  proof (cases "fst x = k")
    case True
    with Cons.prems have "k \<notin> fst ` set xs" and "snd x = v" by auto
    then have "filter (\<lambda>kd. fst kd = k) xs = []"
      by (auto simp: filter_empty_conv image_iff)
    moreover have "x = (k, v)"
      using True \<open>snd x = v\<close> by (cases x) simp
    ultimately show ?thesis by simp
  next
    case False
    with Cons show ?thesis by auto
  qed
qed

lemma transform_Module_members:
  assumes "transform_Module tk pkg ctx nm body = Inr (m, ctx')"
  shows "\<exists>mems1 inits imps ctx1.
           module_body tk ctx
             [(''__name__'', ModuleProperty (Identifier ''__name__'' None)
                               (TypeToken (type_dynamic tk) None))]
             [modname_init] {#} body = Inr (mems1, inits, imps, ctx1)
         \<and> add_globals tk ctx1 (globals ctx1)
              (AList.update (func_entrypoint tk)
                 (ModuleMethod (Identifier (func_entrypoint tk) None) None None
                    (Some (Block [] None)) None)
                 (if inits \<noteq> []
                  then AList.update (func_init tk)
                         (ModuleMethod (Identifier (func_init tk) None) None None
                            (Some (Block inits None)) None) mems1
                  else mems1)) = Inr (members m)"
  using assms
  by (auto simp: transform_Module_def Let_def ident_from_def type_token_def loc_from_def
        modname_init_def split: sum.splits prod.splits cong: if_cong split del: if_split)

text \<open>
  C10.  Every module that \<open>transform_Module\<close> produces has exactly one member under the
  name of the entrypoint, and it is a method with an empty block as its body.
\<close>

theorem transform_Module_entrypoint:
  assumes "transform_Module tk pkg ctx nm body = Inr (m, ctx')"
  shows "filter (\<lambda>kd. fst kd = func_entrypoint tk) (members m) =
           [(func_entrypoint tk,
             ModuleMethod (Identifier (func_entrypoint tk) None) None None
               (Some (Block [] None)) None)]"
proof -
  let ?ep = "ModuleMethod (Identifier (func_entrypoint tk) None) None None
               (Some (Block [] None)) None"
  from transform_Module_members[OF assms] obtain mems1 inits imps ctx1 mems2 where
    body: "module_body tk ctx
             [(''__name__'', ModuleProperty (Identifier ''__name__'' None)
                               (TypeToken (type_dynamic tk) None))]
             [modname_init] {#} body = Inr (mems1, inits, imps, ctx1)"
    and mems2: "mems2 = (if inits \<noteq> []
                  then AList.update (func_init tk)
                         (ModuleMethod (Identifier (func_init tk) None) None None
                            (Some (Block inits None)) None) mems1
                  else mems1)"
    and glob: "add_globals tk ctx1 (globals ctx1)
                 (AList.update (func_entrypoint tk) ?ep mems2) = Inr (members m)"
    by blast
  have "distinct (map fst mems1)"
    using module_body_distinct[OF body] by simp
  then have "distinct (map fst mems2)"
    by (simp add: mems2 distinct_update)
  then have d3: "distinct (map fst (AList.update (func_entrypoint tk) ?ep mems2))"
    by (rule distinct_update)
  have d4: "distinct (map fst (members m))"
    using add_globals_distinct[OF glob d3] .
  have "map_of (members m) (func_entrypoint tk) =
          map_of (AList.update (func_entrypoint tk) ?ep mems2) (func_entrypoint tk)"
    by (rule add_globals_map_of[OF glob]) (simp add: dom_update)
  then have "map_of (members m) (func_entrypoint tk) = Some ?ep"
    by (simp add: update_conv')
  with d4 show ?thesis by (rule distinct_map_of_filter)
qed

theorem transform_Module_entrypoint_witness:
  "(case transform_Module example_tokens example_pkg example_ctx ''m'' [] of
      Inl e \<Rightarrow> False
    | Inr (m, c) \<Rightarrow>
        filter (\<lambda>kd. fst kd = ''.main'') (members m) =
          [(''.main'',
            ModuleMethod (Identifier ''.main'' None) None None (Some (Block [] None)) None)])"
  using transform_Module_entrypoint[OF transform_Module_empty]
  unfolding transform_Module_empty by (simp add: example_tokens_def)

text \<open>
  C4, as the code has it.  Every module that \<open>transform_Module\<close> produces has an init
  member (when the names of the initializer and of the entrypoint differ): a method
  whose body is a block that starts with the assignment to \<^verbatim>\<open>__name__\<close>.  When the
  top-level statements are only function definitions and imports, that assignment is
  the whole block.
\<close>

theorem transform_Module_init:
  assumes "transform_Module tk pkg ctx nm body = Inr (m, ctx')"
    and "func_init tk \<noteq> func_entrypoint tk"
  shows "\<exists>stmts.
           map_of (members m) (func_init tk) =
             Some (ModuleMethod (Identifier (func_init tk) None) None None
                     (Some (Block (modname_init # stmts) None)) None)
         \<and> (list_all def_or_import body \<longrightarrow> stmts = [])"
proof -
  let ?ep = "ModuleMethod (Identifier (func_entrypoint tk) None) None None
               (Some (Block [] None)) None"
  from transform_Module_members[OF assms(1)] obtain mems1 inits imps ctx1 mems2 where
    body: "module_body tk ctx
             [(''__name__'', ModuleProperty (Identifier ''__name__'' None)
                               (TypeToken (type_dynamic tk) None))]
             [modname_init] {#} body = Inr (mems1, inits, imps, ctx1)"
    and mems2: "mems2 = (if inits \<noteq> []
                  then AList.update (func_init tk)
                         (ModuleMethod (Identifier (func_init tk) None) None None
                            (Some (Block inits None)) None) mems1
                  else mems1)"
    and glob: "add_globals tk ctx1 (globals ctx1)
                 (AList.update (func_entrypoint tk) ?ep mems2) = Inr (members m)"
    by blast
  from module_body_inits[OF body] obtain ex where
    ex: "inits = [modname_init] @ ex" "list_all def_or_import body \<longrightarrow> ex = []"
    by blast
  have "map_of (members m) (func_init tk) =
          map_of (AList.update (func_entrypoint tk) ?ep mems2) (func_init tk)"
    by (rule add_globals_map_of[OF glob]) (simp add: dom_update mems2 ex(1))
  also have "\<dots> = Some (ModuleMethod (Identifier (func_init tk) None) None None
                         (Some (Block (modname_init # ex) None)) None)"
    using assms(2) by (simp add: update_conv' mems2 ex(1))
  finally show ?thesis using ex(2) by blast
qed

theorem transform_Module_init_witness:
  "(case transform_Module example_tokens example_pkg example_ctx ''m'' [import_os_path, def_f] of
      Inl e \<Rightarrow> False
    | Inr (m, c) \<Rightarrow>
        map_of (members m) ''.init'' =
          Some (ModuleMethod (Identifier ''.init'' None) None None
                  (Some (Block [modname_init] None)) None))"
  using transform_Module_init[OF transform_Module_import_def_f]
  unfolding transform_Module_import_def_f
  by (simp add: example_tokens_def import_os_path_def def_f_def)

theorem transform_Module_def_f_has_init:
  "(case transform_Module example_tokens example_pkg example_ctx ''m'' [def_f] of
      Inl e \<Rightarrow> False
    | Inr (m, c) \<Rightarrow>
        map_of (members m) ''.init'' =
          Some (ModuleMethod (Identifier ''.init'' None) None None
                  (Some (Block [modname_init] None)) None))"
  unfolding transform_Module_def_f by simp

section \<open>The loader\<close>


lemma loadCore_while_step:
  assumes "probe_filebases fs cache search fbs exts b pp tr = (r1, tr1)"
  shows "loadCore_while (Suc n) fs cache root search fbs exts up b pp tr =
     (case r1 of
        Returned pkg \<Rightarrow> Some (Inr (pkg, cache), tr1)
      | Raised e \<Rightarrow> Some (Inl e, tr1)
      | Found pkg pkgpath \<Rightarrow> Some (Inr (pkg, cache(pkgpath \<mapsto> pkg)), tr1)
      | NotFound base pkgpath \<Rightarrow>
          (if up then
             (case base of
                None \<Rightarrow> Some (Inl (UnboundLocalError ''base''), tr1)
              | Some b' \<Rightarrow>
                  (if b' = ''/'' then Some (Inl (NoPackageFound root), tr1)
                   else loadCore_while n fs cache root (normpath (path_join search ''..''))
                          fbs exts up base pkgpath tr1))
           else Some (Inl (NoPackageFound root), tr1)))"
  using assms by simp

subsection \<open>Candidates that are passed over\<close>

lemma find_app:
  "find P (xs @ ys) = (case find P xs of None \<Rightarrow> find P ys | Some x \<Rightarrow> Some x)"
  by (induction xs) simp_all

lemma candidates_Cons:
  "candidates search (fb # fbs) exts =
     map (\<lambda>(ext, unm). (path_join search fb @ ext, unm)) exts @ candidates search fbs exts"
  by (simp add: candidates_def)

lemma probe_exts_skip_step:
  assumes "skipped fs cache (base @ ext, unm)"
  shows "\<exists>ev. (\<forall>e\<in>set ev. cache (event_path e) = None)
           \<and> probe_exts fs cache base ((ext, unm) # exts) pp tr =
               probe_exts fs cache base exts (Some (base @ ext)) (tr @ ev)"
proof (cases "fs (base @ ext)")
  case None
  let ?ev = "[CacheGet (base @ ext), OpenFailed (base @ ext)]"
  from assms None have "(\<forall>e\<in>set ?ev. cache (event_path e) = None)
      \<and> probe_exts fs cache base ((ext, unm) # exts) pp tr =
          probe_exts fs cache base exts (Some (base @ ext)) (tr @ ?ev)"
    by (simp add: skipped_def Let_def)
  then show ?thesis by blast
next
  case (Some raw)
  let ?ev = "[CacheGet (base @ ext), ReadFile (base @ ext),
              Unmarshal (base @ ext) (Inl IOError)]"
  from assms Some have "(\<forall>e\<in>set ?ev. cache (event_path e) = None)
      \<and> probe_exts fs cache base ((ext, unm) # exts) pp tr =
          probe_exts fs cache base exts (Some (base @ ext)) (tr @ ?ev)"
    by (simp add: skipped_def Let_def)
  then show ?thesis by blast
qed

lemma probe_exts_skipped:
  assumes "list_all (skipped fs cache) (map (\<lambda>(ext, unm). (base @ ext, unm)) exts)"
  shows "\<exists>pp' ev. (\<forall>e\<in>set ev. cache (event_path e) = None)
           \<and> probe_exts fs cache base exts pp tr = (NotFound (Some base) pp', tr @ ev)"
  using assms
proof (induction exts arbitrary: pp tr)
  case Nil
  have "(\<forall>e\<in>set []. cache (event_path e) = None)
      \<and> probe_exts fs cache base [] pp tr = (NotFound (Some base) pp, tr @ [])"
    by simp
  then show ?case by blast
next
  case (Cons a exts)
  obtain ext unm where a: "a = (ext, unm)" by (cases a)
  from Cons.prems a have sk: "skipped fs cache (base @ ext, unm)"
    and rest: "list_all (skipped fs cache) (map (\<lambda>(ext, unm). (base @ ext, unm)) exts)"
    by simp_all
  from probe_exts_skip_step[OF sk] obtain ev0 where
    ev0: "\<forall>e\<in>set ev0. cache (event_path e) = None"
    and step: "probe_exts fs cache base ((ext, unm) # exts) pp tr =
                 probe_exts fs cache base exts (Some (base @ ext)) (tr @ ev0)"
    by blast
  from Cons.IH[OF rest] obtain pp' ev1 where
    ev1: "\<forall>e\<in>set ev1. cache (event_path e) = None"
    and r: "probe_exts fs cache base exts (Some (base @ ext)) (tr @ ev0) =
              (NotFound (Some base) pp', (tr @ ev0) @ ev1)"
    by blast
  from ev0 ev1 have "\<forall>e\<in>set (ev0 @ ev1). cache (event_path e) = None" by auto
  moreover from step r a
  have "probe_exts fs cache base (a # exts) pp tr = (NotFound (Some base) pp', tr @ (ev0 @ ev1))"
    by simp
  ultimately show ?case by blast
qed

lemma probe_single_pkgpath:
  assumes "\<not> skipped fs cache (q, unm)"
  shows "probe_exts fs cache q [([], unm)] pp tr = probe_exts fs cache q [([], unm)] None tr"
  using assms by (auto simp: skipped_def Let_def split: option.splits sum.splits)

lemma probe_single_stops:
  assumes "\<not> skipped fs cache (q, unm)"
    and "probe_exts fs cache q [([], unm)] pp tr = (r, tr')"
  shows "r \<noteq> NotFound b x"
  using assms by (auto simp: skipped_def Let_def split: option.splits sum.splits if_splits)

lemma probe_exts_stop:
  assumes "find (\<lambda>c. \<not> skipped fs cache c) (map (\<lambda>(ext, unm). (base @ ext, unm)) exts) =
             Some (q, unm)"
  shows "\<exists>ev. (\<forall>e\<in>set ev. cache (event_path e) = None)
           \<and> probe_exts fs cache base exts pp tr =
               probe_exts fs cache q [([], unm)] None (tr @ ev)"
  using assms
proof (induction exts arbitrary: pp tr)
  case Nil
  then show ?case by simp
next
  case (Cons a exts)
  obtain ext unm0 where a: "a = (ext, unm0)" by (cases a)
  show ?case
  proof (cases "skipped fs cache (base @ ext, unm0)")
    case True
    with Cons.prems a
    have rest: "find (\<lambda>c. \<not> skipped fs cache c) (map (\<lambda>(ext, unm). (base @ ext, unm)) exts) =
                  Some (q, unm)"
      by simp
    from probe_exts_skip_step[OF True] obtain ev0 where
      ev0: "\<forall>e\<in>set ev0. cache (event_path e) = None"
      and step: "probe_exts fs cache base ((ext, unm0) # exts) pp tr =
                   probe_exts fs cache base exts (Some (base @ ext)) (tr @ ev0)"
      by blast
    from Cons.IH[OF rest] obtain ev1 where
      ev1: "\<forall>e\<in>set ev1. cache (event_path e) = None"
      and r: "probe_exts fs cache base exts (Some (base @ ext)) (tr @ ev0) =
                probe_exts fs cache q [([], unm)] None ((tr @ ev0) @ ev1)"
      by blast
    from ev0 ev1 have "\<forall>e\<in>set (ev0 @ ev1). cache (event_path e) = None" by auto
    moreover from step r a
    have "probe_exts fs cache base (a # exts) pp tr =
            probe_exts fs cache q [([], unm)] None (tr @ (ev0 @ ev1))"
      by simp
    ultimately show ?thesis by blast
  next
    case False
    with Cons.prems a have q: "q = base @ ext" "unm = unm0" by simp_all
    from False q
    have "probe_exts fs cache base ((ext, unm0) # exts) pp tr =
            probe_exts fs cache q [([], unm)] None tr"
      by (auto simp: skipped_def Let_def split: option.splits sum.splits)
    with a have "(\<forall>e\<in>set []. cache (event_path e) = None)
      \<and> probe_exts fs cache base (a # exts) pp tr =
          probe_exts fs cache q [([], unm)] None (tr @ [])"
      by simp
    then show ?thesis by blast
  qed
qed

lemma probe_filebases_skipped:
  assumes "list_all (skipped fs cache) (candidates search fbs exts)"
    and "fbs \<noteq> []"
  shows "\<exists>pp' ev. (\<forall>e\<in>set ev. cache (event_path e) = None)
           \<and> probe_filebases fs cache search fbs exts b pp tr =
               (NotFound (Some (path_join search (last fbs))) pp', tr @ ev)"
  using assms
proof (induction fbs arbitrary: b pp tr)
  case Nil
  then show ?case by simp
next
  case (Cons fb fbs)
  from Cons.prems(1)
  have here: "list_all (skipped fs cache)
                (map (\<lambda>(ext, unm). (path_join search fb @ ext, unm)) exts)"
    and rest: "list_all (skipped fs cache) (candidates search fbs exts)"
    by (simp_all add: candidates_Cons)
  from probe_exts_skipped[OF here] obtain pp0 ev0 where
    ev0: "\<forall>e\<in>set ev0. cache (event_path e) = None"
    and e: "probe_exts fs cache (path_join search fb) exts pp tr =
              (NotFound (Some (path_join search fb)) pp0, tr @ ev0)"
    by blast
  show ?case
  proof (cases "fbs = []")
    case True
    with e have "probe_filebases fs cache search (fb # fbs) exts b pp tr =
            (NotFound (Some (path_join search (last (fb # fbs)))) pp0, tr @ ev0)"
      by simp
    with ev0 show ?thesis by blast
  next
    case False
    from Cons.IH[OF rest False] obtain pp1 ev1 where
      ev1: "\<forall>e\<in>set ev1. cache (event_path e) = None"
      and r: "probe_filebases fs cache search fbs exts (Some (path_join search fb)) pp0
                (tr @ ev0) =
              (NotFound (Some (path_join search (last fbs))) pp1, (tr @ ev0) @ ev1)"
      by blast
    from ev0 ev1 have "\<forall>e\<in>set (ev0 @ ev1). cache (event_path e) = None" by auto
    moreover from e r False
    have "probe_filebases fs cache search (fb # fbs) exts b pp tr =
            (NotFound (Some (path_join search (last (fb # fbs)))) pp1, tr @ (ev0 @ ev1))"
      by simp
    ultimately show ?thesis by blast
  qed
qed

lemma probe_filebases_stop:
  assumes "find (\<lambda>c. \<not> skipped fs cache c) (candidates search fbs exts) = Some (q, unm)"
  shows "\<exists>ev. (\<forall>e\<in>set ev. cache (event_path e) = None)
           \<and> probe_filebases fs cache search fbs exts b pp tr =
               probe_exts fs cache q [([], unm)] None (tr @ ev)"
  using assms
proof (induction fbs arbitrary: b pp tr)
  case Nil
  then show ?case by (simp add: candidates_def)
next
  case (Cons fb fbs)
  let ?here = "map (\<lambda>(ext, unm). (path_join search fb @ ext, unm)) exts"
  show ?case
  proof (cases "find (\<lambda>c. \<not> skipped fs cache c) ?here")
    case None
    then have here: "list_all (skipped fs cache) ?here"
      by (auto simp: find_None_iff list_all_iff)
    from Cons.prems None
    have rest: "find (\<lambda>c. \<not> skipped fs cache c) (candidates search fbs exts) = Some (q, unm)"
      by (simp add: candidates_Cons find_app)
    from probe_exts_skipped[OF here] obtain pp0 ev0 where
      ev0: "\<forall>e\<in>set ev0. cache (event_path e) = None"
      and e: "probe_exts fs cache (path_join search fb) exts pp tr =
                (NotFound (Some (path_join search fb)) pp0, tr @ ev0)"
      by blast
    from Cons.IH[OF rest] obtain ev1 where
      ev1: "\<forall>e\<in>set ev1. cache (event_path e) = None"
      and r: "probe_filebases fs cache search fbs exts (Some (path_join search fb)) pp0
                (tr @ ev0) =
              probe_exts fs cache q [([], unm)] None ((tr @ ev0) @ ev1)"
      by blast
    from ev0 ev1 have "\<forall>e\<in>set (ev0 @ ev1). cache (event_path e) = None" by auto
    moreover from e r
    have "probe_filebases fs cache search (fb # fbs) exts b pp tr =
            probe_exts fs cache q [([], unm)] None (tr @ (ev0 @ ev1))"
      by simp
    ultimately show ?thesis by blast
  next
    case (Some c)
    with Cons.prems have here: "find (\<lambda>c. \<not> skipped fs cache c) ?here = Some (q, unm)"
      by (simp add: candidates_Cons find_app)
    then have nsk: "\<not> skipped fs cache (q, unm)"
      by (auto simp: find_Some_iff)
    from probe_exts_stop[OF here] obtain ev0 where
      ev0: "\<forall>e\<in>set ev0. cache (event_path e) = None"
      and e: "probe_exts fs cache (path_join search fb) exts pp tr =
                probe_exts fs cache q [([], unm)] None (tr @ ev0)"
      by blast
    obtain r tr' where s: "probe_exts fs cache q [([], unm)] None (tr @ ev0) = (r, tr')"
      by (cases "probe_exts fs cache q [([], unm)] None (tr @ ev0)")
    from e s have e': "probe_exts fs cache (path_join search fb) exts pp tr = (r, tr')"
      by (simp only:)
    have "probe_filebases fs cache search (fb # fbs) exts b pp tr = (r, tr')"
    proof (cases r)
      case (NotFound b' x)
      with probe_single_stops[OF nsk s] show ?thesis by blast
    next
      case (Returned pk)
      with e' show ?thesis by simp
    next
      case (Raised err)
      with e' show ?thesis by simp
    next
      case (Found pk path)
      with e' show ?thesis by simp
    qed
    with s have "probe_filebases fs cache search (fb # fbs) exts b pp tr =
            probe_exts fs cache q [([], unm)] None (tr @ ev0)"
      by (simp only:)
    with ev0 show ?thesis by blast
  qed
qed

subsection \<open>The directories of a resolution\<close>

lemma loadCore_while_walk:
  assumes "\<forall>j<k. list_all (skipped fs cache) (candidates (dir_above j search) fbs exts)"
    and "\<forall>j<k. path_join (dir_above j search) (last fbs) \<noteq> ''/''"
    and "0 < k \<longrightarrow> up \<and> fbs \<noteq> []"
  shows "\<exists>b' pp' ev. (\<forall>e\<in>set ev. cache (event_path e) = None)
           \<and> loadCore_while (k + m) fs cache root search fbs exts up b pp tr =
               loadCore_while m fs cache root (dir_above k search) fbs exts up b' pp' (tr @ ev)"
  using assms
proof (induction k arbitrary: search b pp tr)
  case 0
  have "(\<forall>e\<in>set []. cache (event_path e) = None)
      \<and> loadCore_while (0 + m) fs cache root search fbs exts up b pp tr =
          loadCore_while m fs cache root (dir_above 0 search) fbs exts up b pp (tr @ [])"
    by simp
  then show ?case by blast
next
  case (Suc k)
  from Suc.prems(3) have up: "up" and fbs: "fbs \<noteq> []" by simp_all
  from Suc.prems(1) have here: "list_all (skipped fs cache) (candidates search fbs exts)"
    by (auto dest: spec[of _ 0])
  from Suc.prems(2) have base: "path_join search (last fbs) \<noteq> ''/''"
    by (auto dest: spec[of _ 0])
  from probe_filebases_skipped[OF here fbs] obtain pp0 ev0 where
    ev0: "\<forall>e\<in>set ev0. cache (event_path e) = None"
    and e: "probe_filebases fs cache search fbs exts b pp tr =
              (NotFound (Some (path_join search (last fbs))) pp0, tr @ ev0)"
    by blast
  have step: "loadCore_while (Suc k + m) fs cache root search fbs exts up b pp tr =
          loadCore_while (k + m) fs cache root (parent_dir search) fbs exts up
            (Some (path_join search (last fbs))) pp0 (tr @ ev0)"
    using up base by (simp add: e parent_dir_def)
  have a1: "\<forall>j<k. list_all (skipped fs cache) (candidates (dir_above j (parent_dir search)) fbs exts)"
  proof (intro allI impI)
    fix j assume "j < k"
    then have "Suc j < Suc k" by simp
    with Suc.prems(1) have "list_all (skipped fs cache) (candidates (dir_above (Suc j) search) fbs exts)"
      by blast
    then show "list_all (skipped fs cache) (candidates (dir_above j (parent_dir search)) fbs exts)"
      by simp
  qed
  have a2: "\<forall>j<k. path_join (dir_above j (parent_dir search)) (last fbs) \<noteq> ''/''"
  proof (intro allI impI)
    fix j assume "j < k"
    then have "Suc j < Suc k" by simp
    with Suc.prems(2) have "path_join (dir_above (Suc j) search) (last fbs) \<noteq> ''/''"
      by blast
    then show "path_join (dir_above j (parent_dir search)) (last fbs) \<noteq> ''/''"
      by simp
  qed
  have a3: "0 < k \<longrightarrow> up \<and> fbs \<noteq> []" using up fbs by simp
  from Suc.IH[OF a1 a2 a3] obtain b' pp' ev1 where
    ev1: "\<forall>e\<in>set ev1. cache (event_path e) = None"
    and r: "loadCore_while (k + m) fs cache root (parent_dir search) fbs exts up
              (Some (path_join search (last fbs))) pp0 (tr @ ev0) =
            loadCore_while m fs cache root (dir_above k (parent_dir search)) fbs exts up b' pp'
              ((tr @ ev0) @ ev1)"
    by blast
  from ev0 ev1 have "\<forall>e\<in>set (ev0 @ ev1). cache (event_path e) = None" by auto
  moreover from step r
  have "loadCore_while (Suc k + m) fs cache root search fbs exts up b pp tr =
          loadCore_while m fs cache root (dir_above (Suc k) search) fbs exts up b' pp'
            (tr @ (ev0 @ ev1))"
    by simp
  ultimately show ?case by blast
qed

lemma loadCore_while_stop:
  assumes "find (\<lambda>c. \<not> skipped fs cache c) (candidates search fbs exts) = Some (q, unm)"
  shows "\<exists>ev. (\<forall>e\<in>set ev. cache (event_path e) = None)
           \<and> loadCore_while (Suc m) fs cache root search fbs exts up b pp tr =
               (case probe_exts fs cache q [([], unm)] None (tr @ ev) of
                  (Returned pkg, tr') \<Rightarrow> Some (Inr (pkg, cache), tr')
                | (Raised e, tr') \<Rightarrow> Some (Inl e, tr')
                | (Found pkg pkgpath, tr') \<Rightarrow> Some (Inr (pkg, cache(pkgpath \<mapsto> pkg)), tr')
                | (NotFound b' pp', tr') \<Rightarrow> None)"
proof -
  from assms have nsk: "\<not> skipped fs cache (q, unm)"
    by (auto simp: find_Some_iff)
  from probe_filebases_stop[OF assms] obtain ev where
    ev: "\<forall>e\<in>set ev. cache (event_path e) = None"
    and e: "probe_filebases fs cache search fbs exts b pp tr =
              probe_exts fs cache q [([], unm)] None (tr @ ev)"
    by blast
  obtain r tr' where s: "probe_exts fs cache q [([], unm)] None (tr @ ev) = (r, tr')"
    by (cases "probe_exts fs cache q [([], unm)] None (tr @ ev)")
  from e s have e': "probe_filebases fs cache search fbs exts b pp tr = (r, tr')"
    by (simp only:)
  have "loadCore_while (Suc m) fs cache root search fbs exts up b pp tr =
          (case (r, tr') of
             (Returned pkg, tr') \<Rightarrow> Some (Inr (pkg, cache), tr')
           | (Raised e, tr') \<Rightarrow> Some (Inl e, tr')
           | (Found pkg pkgpath, tr') \<Rightarrow> Some (Inr (pkg, cache(pkgpath \<mapsto> pkg)), tr')
           | (NotFound b' pp', tr') \<Rightarrow> None)"
  proof (cases r)
    case (NotFound b' x)
    with probe_single_stops[OF nsk s] show ?thesis by blast
  next
    case (Returned pk)
    then show ?thesis by (simp add: e')
  next
    case (Raised err)
    then show ?thesis by (simp add: e')
  next
    case (Found pk path)
    then show ?thesis by (simp add: e')
  qed
  with s have "loadCore_while (Suc m) fs cache root search fbs exts up b pp tr =
          (case probe_exts fs cache q [([], unm)] None (tr @ ev) of
             (Returned pkg, tr') \<Rightarrow> Some (Inr (pkg, cache), tr')
           | (Raised e, tr') \<Rightarrow> Some (Inl e, tr')
           | (Found pkg pkgpath, tr') \<Rightarrow> Some (Inr (pkg, cache(pkgpath \<mapsto> pkg)), tr')
           | (NotFound b' pp', tr') \<Rightarrow> None)"
    by (simp only:)
  with ev show ?thesis by blast
qed

lemma loadCore_reach:
  assumes "\<forall>j<k. list_all (skipped fs cache) (candidates (dir_above j (normpath root)) fbs exts)"
    and "\<forall>j<k. path_join (dir_above j (normpath root)) (last fbs) \<noteq> ''/''"
    and "0 < k \<longrightarrow> upwards"
    and "find (\<lambda>c. \<not> skipped fs cache c) (candidates (dir_above k (normpath root)) fbs exts) =
           Some (q, unm)"
    and "k < n"
  shows "\<exists>ev. (\<forall>e\<in>set ev. cache (event_path e) = None)
           \<and> loadCore n fs cache root fbs exts upwards =
               (case probe_exts fs cache q [([], unm)] None ev of
                  (Returned pkg, tr') \<Rightarrow> Some (Inr (pkg, cache), tr')
                | (Raised e, tr') \<Rightarrow> Some (Inl e, tr')
                | (Found pkg pkgpath, tr') \<Rightarrow> Some (Inr (pkg, cache(pkgpath \<mapsto> pkg)), tr')
                | (NotFound b' pp', tr') \<Rightarrow> None)"
proof -
  from assms(5) obtain m where n: "n = k + Suc m"
    by (auto simp: less_iff_Suc_add)
  have "fbs \<noteq> []"
  proof
    assume "fbs = []"
    with assms(4) show False by (simp add: candidates_def)
  qed
  with assms(3) have a3: "0 < k \<longrightarrow> upwards \<and> fbs \<noteq> []" by simp
  from loadCore_while_walk[OF assms(1,2) a3] obtain b' pp' ev0 where
    ev0: "\<forall>e\<in>set ev0. cache (event_path e) = None"
    and w: "loadCore_while (k + Suc m) fs cache root (normpath root) fbs exts upwards None None [] =
              loadCore_while (Suc m) fs cache root (dir_above k (normpath root)) fbs exts upwards
                b' pp' ([] @ ev0)"
    by blast
  from loadCore_while_stop[OF assms(4)] obtain ev1 where
    ev1: "\<forall>e\<in>set ev1. cache (event_path e) = None"
    and s: "loadCore_while (Suc m) fs cache root (dir_above k (normpath root)) fbs exts upwards
              b' pp' ([] @ ev0) =
            (case probe_exts fs cache q [([], unm)] None (([] @ ev0) @ ev1) of
               (Returned pkg, tr') \<Rightarrow> Some (Inr (pkg, cache), tr')
             | (Raised e, tr') \<Rightarrow> Some (Inl e, tr')
             | (Found pkg pkgpath, tr') \<Rightarrow> Some (Inr (pkg, cache(pkgpath \<mapsto> pkg)), tr')
             | (NotFound b' pp', tr') \<Rightarrow> None)"
    by blast
  from ev0 ev1 have "\<forall>e\<in>set (ev0 @ ev1). cache (event_path e) = None" by auto
  moreover from w s n
  have "loadCore n fs cache root fbs exts upwards =
          (case probe_exts fs cache q [([], unm)] None (ev0 @ ev1) of
             (Returned pkg, tr') \<Rightarrow> Some (Inr (pkg, cache), tr')
           | (Raised e, tr') \<Rightarrow> Some (Inl e, tr')
           | (Found pkg pkgpath, tr') \<Rightarrow> Some (Inr (pkg, cache(pkgpath \<mapsto> pkg)), tr')
           | (NotFound b' pp', tr') \<Rightarrow> None)"
    by (simp add: loadCore_def)
  ultimately show ?thesis by blast
qed

subsection \<open>A descriptor without a name\<close>

text \<open>
  C8.  Let \<open>p\<close> be the first candidate of a resolution that is not passed over: the
  candidates of the directories below it, and those before it in its directory, are
  not in the cache and cannot be opened or decoded.  When the file at \<open>p\<close> is read and
  its codec returns a descriptor without a name, the resolution, given fuel for the
  directories it visits, returns the error that names \<open>p\<close>, and the parse is the last
  thing it does: no other extension, file base or directory is tried after it.
\<close>

theorem loadCore_missing_name:
  assumes "\<forall>j<k. list_all (skipped fs cache) (candidates (dir_above j (normpath root)) fbs exts)"
    and "\<forall>j<k. path_join (dir_above j (normpath root)) (last fbs) \<noteq> ''/''"
    and "0 < k \<longrightarrow> upwards"
    and "find (\<lambda>c. \<not> skipped fs cache c) (candidates (dir_above k (normpath root)) fbs exts) =
           Some (p, unm)"
    and "cache p = None" and "fs p = Some raw" and "unm raw = Inr d"
    and "\<not> truthy (dict_get d ''name'')"
    and "k < n"
  shows "\<exists>tr. loadCore n fs cache root fbs exts upwards =
                Some (Inl (MissingName p), tr @ [Unmarshal p (Inr d)])"
proof -
  from loadCore_reach[OF assms(1,2,3,4,9)] obtain ev where
    r: "loadCore n fs cache root fbs exts upwards =
          (case probe_exts fs cache p [([], unm)] None ev of
             (Returned pkg, tr') \<Rightarrow> Some (Inr (pkg, cache), tr')
           | (Raised e, tr') \<Rightarrow> Some (Inl e, tr')
           | (Found pkg pkgpath, tr') \<Rightarrow> Some (Inr (pkg, cache(pkgpath \<mapsto> pkg)), tr')
           | (NotFound b' pp', tr') \<Rightarrow> None)"
    by blast
  from assms(5,6,7,8)
  have "probe_exts fs cache p [([], unm)] None ev =
          (Raised (MissingName p), (ev @ [CacheGet p, ReadFile p]) @ [Unmarshal p (Inr d)])"
    by (simp add: Let_def)
  with r have "loadCore n fs cache root fbs exts upwards =
          Some (Inl (MissingName p), (ev @ [CacheGet p, ReadFile p]) @ [Unmarshal p (Inr d)])"
    by (simp only: prod.case probe.case)
  then show ?thesis by blast
qed

theorem loadCore_missing_name_witness:
  "\<exists>tr. loadDependency 2 example_pack fs_nameless no_cache ''/p/q'' =
          Some (Inl (MissingName ''/p/Coconut.json''),
                tr @ [Unmarshal ''/p/Coconut.json'' (Inr [(''author'', PStr ''me'')])])"
  using loadCore_missing_name[of "Suc 0" fs_nameless no_cache "''/p/q''"
          "[''Coconut'', ''Cocopack'']" "[(''.json'', example_codec), (''.yaml'', example_codec)]"
          True "''/p/Coconut.json''" example_codec "''author: me''"
          "[(''author'', PStr ''me'')]" 2]
  by (simp add: loadDependency_def example_pack_def candidates_def skipped_def parent_dir_def
        fs_nameless_def files_def no_cache_def normpath_def startswith_def endswith_def
        path_join_def dict_get_def example_codec_def)

subsection \<open>The cache\<close>




subsection \<open>The search of the parent directories\<close>

lemma path_join_not_root:
  assumes "fb \<noteq> []" and "fb \<noteq> ''/''"
  shows "path_join search fb \<noteq> ''/''"
proof (cases "startswith fb ''/''")
  case True
  with assms(2) show ?thesis by (simp add: path_join_def)
next
  case False
  from assms have "search @ fb \<noteq> ''/''"
    by (cases search) (auto simp: append_eq_Cons_conv)
  moreover from assms(1) have "search @ ''/'' @ fb \<noteq> ''/''"
    by (cases search) auto
  ultimately show ?thesis using False by (simp add: path_join_def)
qed

lemma probe_exts_empty:
  "\<exists>pp' tr'. probe_exts Map.empty Map.empty base exts pp tr = (NotFound (Some base) pp', tr')"
proof (induction exts arbitrary: pp tr)
  case Nil
  show ?case by simp
next
  case (Cons a exts)
  obtain ext unm where a: "a = (ext, unm)" by (cases a)
  from Cons.IH[of "Some (base @ ext)" "tr @ [CacheGet (base @ ext), OpenFailed (base @ ext)]"]
  show ?case by (simp add: a Let_def)
qed

lemma probe_filebases_empty:
  assumes "fbs \<noteq> []"
  shows "\<exists>pp' tr'. probe_filebases Map.empty Map.empty search fbs exts b pp tr =
           (NotFound (Some (path_join search (last fbs))) pp', tr')"
  using assms
proof (induction fbs arbitrary: b pp tr)
  case Nil
  then show ?case by simp
next
  case (Cons fb fbs)
  obtain pp1 tr1 where e:
    "probe_exts Map.empty Map.empty (path_join search fb) exts pp tr =
       (NotFound (Some (path_join search fb)) pp1, tr1)"
    using probe_exts_empty by blast
  show ?case
  proof (cases "fbs = []")
    case True
    with e show ?thesis by simp
  next
    case False
    from Cons.IH[OF False, of "Some (path_join search fb)" pp1 tr1] False e
    show ?thesis by simp
  qed
qed

lemma loadCore_while_empty:
  assumes "fbs \<noteq> []" and "last fbs \<noteq> []" and "last fbs \<noteq> ''/''"
  shows "loadCore_while n Map.empty Map.empty root search fbs exts True b pp tr = None"
proof (induction n arbitrary: search b pp tr)
  case 0
  show ?case by simp
next
  case (Suc n)
  obtain pp1 tr1 where e:
    "probe_filebases Map.empty Map.empty search fbs exts b pp tr =
       (NotFound (Some (path_join search (last fbs))) pp1, tr1)"
    using probe_filebases_empty[OF assms(1)] by blast
  have "path_join search (last fbs) \<noteq> ''/''"
    using assms(2,3) by (rule path_join_not_root)
  then show ?case
    unfolding loadCore_while_step[OF e] using Suc.IH by simp
qed

text \<open>
  C6.  The search of the parent directories is to end for every root, with the error
  that no package was found.  The code does not do so: it compares \<open>base\<close>, the path of
  the last file base in the directory, with \<^verbatim>\<open>"/"\<close>, and not the directory.  With no
  descriptor in the file system and none in the cache, and a last file base that is
  neither empty nor \<^verbatim>\<open>"/"\<close>, the loop is still running after any number of iterations,
  from every root.
\<close>

theorem loadCore_upwards_never_returns:
  assumes "filebases \<noteq> []" and "last filebases \<noteq> []" and "last filebases \<noteq> ''/''"
  shows "loadCore n Map.empty Map.empty root filebases exts True = None"
  unfolding loadCore_def using assms by (rule loadCore_while_empty)

theorem loadCore_upwards_never_returns_witness:
  "\<forall>n. loadDependency n example_pack Map.empty Map.empty ''/'' = None"
  using loadCore_upwards_never_returns[of "[''Coconut'', ''Cocopack'']" _ "''/''"
          "unmarshalers example_pack"]
  by (simp add: loadDependency_def example_pack_def)

lemma normpath_root_parent: "normpath (path_join ''/'' ''..'') = ''/''"
  by (simp add: normpath_def path_join_def startswith_def endswith_def)

end
